theory Spec2Isabelle
  imports Main
begin

section \<open>The world the script acts on\<close>

text \<open>
  The script \<^verbatim>\<open>script/encrypt-heroku-auth-token.js\<close> works on the files of the working
  directory, on the console, and through calls to collaborators outside the process (git,
  the heroku and openssl commands, one HTTP request). The file system is a map from paths to
  the contents of regular files. Every call that leaves the process or touches the file
  system is appended to a call log, so that the order of the steps can be read off.
  A JavaScript string is a list of characters here; the text of a Buffer is the string it
  decodes to.
\<close>

type_synonym path = string

datatype thrown =
    Error string
  | TypeError string
  | Chunks "string list"

datatype call =
    GitGetRemotes
  | Spawn string "string list"
  | HttpGet string
  | FileExists path
  | FileRead path
  | FileWrite path string
  | FileUnlink path

record world =
  files :: "path \<rightharpoonup> string"
  console :: "string list"
  calls :: "call list"
  handlers :: bool

text \<open>
  \<open>handlers\<close> tells whether the listeners for \<^verbatim>\<open>uncaughtException\<close> and
  \<^verbatim>\<open>unhandledRejection\<close> have been installed with \<^verbatim>\<open>process.on\<close>.
\<close>

definition console_log :: "string \<Rightarrow> world \<Rightarrow> world" where
  "console_log msg w = w\<lparr>console := console w @ [msg]\<rparr>"

definition logged :: "call \<Rightarrow> world \<Rightarrow> world" where
  "logged c w = w\<lparr>calls := calls w @ [c]\<rparr>"

subsection \<open>The calls of the \<^verbatim>\<open>fs\<close> module that the script makes\<close>

definition existsSync :: "path \<Rightarrow> world \<Rightarrow> bool \<times> world" where
  "existsSync p w = (files w p \<noteq> None, logged (FileExists p) w)"

definition unlinkSync :: "path \<Rightarrow> world \<Rightarrow> (thrown + unit) \<times> world" where
  "unlinkSync p w =
     (case files w p of
        None \<Rightarrow> (Inl (Error (''ENOENT: no such file or directory, unlink '' @ p)), w)
      | Some _ \<Rightarrow> (Inr (), logged (FileUnlink p) (w\<lparr>files := (files w)(p := None)\<rparr>)))"

definition readFileSync :: "path \<Rightarrow> world \<Rightarrow> (thrown + string) \<times> world" where
  "readFileSync p w =
     (case files w p of
        None \<Rightarrow> (Inl (Error (''ENOENT: no such file or directory, open '' @ p)), w)
      | Some s \<Rightarrow> (Inr s, logged (FileRead p) w))"

definition writeFileSync :: "path \<Rightarrow> string \<Rightarrow> world \<Rightarrow> world" where
  "writeFileSync p s w = logged (FileWrite p s) (w\<lparr>files := (files w)(p \<mapsto> s)\<rparr>)"

section \<open>\<^verbatim>\<open>clean\<close>: removing the temporary files\<close>

definition externalFiles :: "path list" where
  "externalFiles = [''.tmp.key.pem'', ''.tmp.token.txt'', ''.tmp.token.enc'']"

text \<open>
  \<^verbatim>\<open>externalFiles.forEach(file => { if (fs.existsSync(file)) fs.unlinkSync(file); })\<close>:
  an exception of \<^verbatim>\<open>unlinkSync\<close> would leave the loop.
\<close>

fun clean_forEach :: "path list \<Rightarrow> world \<Rightarrow> (thrown + unit) \<times> world" where
  "clean_forEach [] w = (Inr (), w)"
| "clean_forEach (file # rest) w =
     (case existsSync file w of
        (True, w1) \<Rightarrow>
          (case unlinkSync file w1 of
             (Inl e, w2) \<Rightarrow> (Inl e, w2)
           | (Inr _, w2) \<Rightarrow> clean_forEach rest w2)
      | (False, w1) \<Rightarrow> clean_forEach rest w1)"

definition clean :: "world \<Rightarrow> (thrown + unit) \<times> world" where
  "clean w = clean_forEach externalFiles w"

text \<open>Calling \<^verbatim>\<open>clean\<close> several times in a row, as long as it returns.\<close>

fun clean_times :: "nat \<Rightarrow> world \<Rightarrow> (thrown + unit) \<times> world" where
  "clean_times 0 w = (Inr (), w)"
| "clean_times (Suc n) w =
     (case clean w of
        (Inl e, w1) \<Rightarrow> (Inl e, w1)
      | (Inr _, w1) \<Rightarrow> clean_times n w1)"

section \<open>Collaborators outside the process\<close>

text \<open>
  The packages \<^verbatim>\<open>simple-git\<close>, \<^verbatim>\<open>git-url-parse\<close>, \<^verbatim>\<open>axios\<close> and \<^verbatim>\<open>yaml\<close>, the commands
  \<^verbatim>\<open>heroku\<close> and \<^verbatim>\<open>openssl\<close>, the table \<^verbatim>\<open>keyComments.json\<close> and the Node.js runtime are
  not part of the script. What they answer is a parameter of the run, collected in the record
  \<open>env\<close>; the script is modelled for every such answer.
\<close>

record remote =
  remote_name :: string
  refs_fetch :: string

text \<open>The fields \<^verbatim>\<open>full_name\<close> and \<^verbatim>\<open>name\<close> of what \<^verbatim>\<open>GitUrlParse\<close> returns; \<open>None\<close> is
  \<^verbatim>\<open>undefined\<close>.\<close>

record git_url =
  full_name :: "string option"
  url_name :: "string option"

text \<open>A finished child process: the code of its \<^verbatim>\<open>close\<close> event (\<open>None\<close> is \<^verbatim>\<open>null\<close>, the
  child was ended by a signal) and the chunks it wrote.\<close>

record child =
  exit_code :: "nat option"
  stdout :: "string list"
  stderr :: "string list"

subsection \<open>YAML documents\<close>

text \<open>
  A node of a document of the \<^verbatim>\<open>yaml\<close> package. A pair of a mapping carries its key, its
  value and the two comments the script assigns (\<^verbatim>\<open>comment\<close>, \<^verbatim>\<open>commentBefore\<close>). The parser
  wraps every key in a scalar node, and so does \<^verbatim>\<open>YAML.createNode\<close>; \<^verbatim>\<open>doc.set\<close> keeps the
  plain string it was given as the key of a pair it adds. The script tells the two apart
  (\<^verbatim>\<open>item.key === "deploy"\<close> holds for the plain string only), hence the type of keys is a
  parameter: \<open>string\<close> for what the parser returns, \<open>ykey\<close> for the document in memory.
  The nodes are scalars, sequences and mappings with scalar keys (a key is the text of its
  scalar); documents that use anchors and aliases are outside this model.
  The type of comments is a parameter too. The parser gives a string or nothing
  (\<open>string option\<close>). The script assigns \<^verbatim>\<open>keyComments[key]\<close>, which is \<^verbatim>\<open>undefined\<close>, a
  string, or a value that is no string (a function or an object inherited from
  \<^verbatim>\<open>Object.prototype\<close>): the type \<open>property\<close>.
\<close>

datatype (keys_yval: 'k, comments_yval: 'c) yval =
    YNull
  | YBool bool
  | YNum int
  | YStr string
  | YSeq "('k, 'c) yval list"
  | YMap "('k, 'c) ypair list"
and (keys_ypair: 'k, comments_ypair: 'c) ypair =
    YPair (pair_key: 'k) (pair_value: "('k, 'c) yval")
          (pair_comment: 'c) (pair_commentBefore: 'c)

datatype ykey = RawKey string | ScalarKey string

datatype property = Undefined | Str string | NonString

fun of_comment :: "string option \<Rightarrow> property" where
  "of_comment None = Undefined"
| "of_comment (Some s) = Str s"

fun key_text :: "ykey \<Rightarrow> string" where
  "key_text (RawKey s) = s"
| "key_text (ScalarKey s) = s"

text \<open>A document: its contents, its comment, and the errors the parser found in the text.\<close>

record ('k, 'c) document =
  contents :: "('k, 'c) yval option"
  comment :: 'c
  errors :: "string list"

text \<open>The plain data of a node (what \<^verbatim>\<open>toJSON\<close> gives): comments and the kind of key dropped.\<close>

datatype js =
    JNull
  | JBool bool
  | JNum int
  | JStr string
  | JList "js list"
  | JObj "(string \<times> js) list"

primrec toJS :: "(ykey, property) yval \<Rightarrow> js"
  and pairJS :: "(ykey, property) ypair \<Rightarrow> string \<times> js" where
  "toJS YNull = JNull"
| "toJS (YBool b) = JBool b"
| "toJS (YNum n) = JNum n"
| "toJS (YStr s) = JStr s"
| "toJS (YSeq xs) = JList (map toJS xs)"
| "toJS (YMap ps) = JObj (map pairJS ps)"
| "pairJS (YPair k v c cb) = (key_text k, toJS v)"

subsection \<open>The environment of a run\<close>

record env =
  argv :: "string list"
  getRemotes :: "thrown + remote list"
  GitUrlParse :: "string option \<Rightarrow> thrown + git_url"
  spawn :: "string \<Rightarrow> string list \<Rightarrow> (path \<rightharpoonup> string) \<Rightarrow> child \<times> (path \<rightharpoonup> string)"
  axios_get :: "string \<Rightarrow> thrown + string option"
  base64 :: "string \<Rightarrow> string"
  keyComments :: "string \<rightharpoonup> string"
  parseDocument :: "string \<Rightarrow> (string, string option) document"
  stringify :: "(ykey, property) document \<Rightarrow> string"
  unhandled_exit :: nat

text \<open>
  \<^item> \<open>argv\<close> is \<^verbatim>\<open>process.argv\<close>;
  \<^item> \<open>getRemotes\<close> is what \<^verbatim>\<open>simpleGit.getRemotes(true, callback)\<close> hands to its callback:
    an error, or the list of remotes;
  \<^item> \<open>GitUrlParse\<close> is the function of that name, applied to a string or to \<^verbatim>\<open>undefined\<close>
    (\<open>None\<close>); it returns or throws;
  \<^item> \<open>spawn\<close> runs a command on the files of the working directory and gives the finished
    child and the files it leaves;
  \<^item> \<open>axios_get\<close> is the request: rejected, or resolved with the field \<^verbatim>\<open>data.key\<close> of the
    response (\<open>None\<close> when the response has no such field);
  \<^item> \<open>base64\<close> is \<^verbatim>\<open>Buffer.toString("base64")\<close>;
  \<^item> \<open>keyComments\<close> holds the own properties of the object read from \<^verbatim>\<open>keyComments.json\<close>,
    the comment texts;
  \<^item> \<open>parseDocument\<close> is \<^verbatim>\<open>YAML.parseDocument\<close>, which does not throw but records the errors
    of the text in the document; \<open>stringify\<close> is the text that \<^verbatim>\<open>doc.toString\<close> returns when
    it returns;
  \<^item> \<open>unhandled_exit\<close> is the exit code of the Node.js runtime for a rejected promise that
    nobody handles (0 with a warning before Node.js 15, 1 since).
\<close>

section \<open>Failures\<close>

text \<open>
  An exception thrown in \<^verbatim>\<open>main\<close> rejects the promise of \<^verbatim>\<open>main\<close>, which nobody awaits: an
  unhandled rejection. An exception thrown in the callback of an event is an uncaught
  exception.
\<close>

datatype failure = UncaughtException thrown | UnhandledRejection thrown

definition andThen ::
  "(failure + 'a) \<times> world \<Rightarrow> ('a \<Rightarrow> world \<Rightarrow> (failure + 'b) \<times> world) \<Rightarrow> (failure + 'b) \<times> world" where
  "andThen m k = (case m of (Inl f, w) \<Rightarrow> (Inl f, w) | (Inr x, w) \<Rightarrow> k x w)"

definition rejecting :: "(thrown + 'a) \<times> world \<Rightarrow> (failure + 'a) \<times> world" where
  "rejecting m = (case m of (Inl ex, w) \<Rightarrow> (Inl (UnhandledRejection ex), w) | (Inr x, w) \<Rightarrow> (Inr x, w))"

section \<open>\<^verbatim>\<open>getRemoteURL\<close> and \<^verbatim>\<open>getNamesFromGit\<close>\<close>

text \<open>
  \<^verbatim>\<open>remotes.filter(remote => remote.name === name)[0].refs.fetch\<close> inside \<^verbatim>\<open>try\<close>: with no
  remote of that name, reading \<^verbatim>\<open>refs\<close> of \<^verbatim>\<open>undefined\<close> throws a TypeError, which the
  \<^verbatim>\<open>catch\<close> block logs; the function then returns \<^verbatim>\<open>undefined\<close>.
\<close>

definition missing_remote_message :: "string \<Rightarrow> string" where
  "missing_remote_message nm =
     ''It appears that the remote '' @ nm @ '' does not exist. Here is the full error: ''
       @ ''TypeError: Cannot read property refs of undefined''"

definition getRemoteURL :: "string \<Rightarrow> remote list \<Rightarrow> world \<Rightarrow> string option \<times> world" where
  "getRemoteURL nm remotes w =
     (case filter (\<lambda>remote. remote_name remote = nm) remotes of
        [] \<Rightarrow> (None, console_log (missing_remote_message nm) w)
      | remote # _ \<Rightarrow> (Some (refs_fetch remote), w))"

record names =
  fullName :: "string option"
  appName :: "string option"

text \<open>
  The callback of \<^verbatim>\<open>getRemotes\<close>. With an error it rejects and throws; otherwise it resolves
  with the two names, unless \<^verbatim>\<open>GitUrlParse\<close> throws, which happens in the callback and leaves
  the promise pending.
\<close>

definition getNamesFromGit :: "env \<Rightarrow> world \<Rightarrow> (failure + names) \<times> world" where
  "getNamesFromGit e w0 =
     (let w = logged GitGetRemotes w0 in
      case getRemotes e of
        Inl err \<Rightarrow> (Inl (UncaughtException (Error [])), w)
      | Inr res \<Rightarrow>
          (case getRemoteURL ''origin'' res w of
             (origin, w1) \<Rightarrow>
               (case GitUrlParse e origin of
                  Inl ex \<Rightarrow> (Inl (UncaughtException ex), w1)
                | Inr g1 \<Rightarrow>
                    (case getRemoteURL ''heroku'' res w1 of
                       (heroku, w2) \<Rightarrow>
                         (case GitUrlParse e heroku of
                            Inl ex \<Rightarrow> (Inl (UncaughtException ex), w2)
                          | Inr g2 \<Rightarrow>
                              (Inr \<lparr>fullName = full_name g1, appName = url_name g2\<rparr>, w2))))))"

section \<open>\<^verbatim>\<open>getOutputFromCommand\<close>\<close>

datatype 'a promise = Resolved 'a | Rejected thrown

text \<open>
  The listener of \<^verbatim>\<open>close\<close>: \<^verbatim>\<open>if (code) throw new Error(reject(stderr)); resolve(stdout);\<close>.
  A truthy code is a number other than 0. The listener gives the state of the promise and
  the exception it throws, if any.
\<close>

definition on_close ::
  "nat option \<Rightarrow> string list \<Rightarrow> string list \<Rightarrow> string list promise \<times> thrown option" where
  "on_close code out err =
     (if code \<noteq> None \<and> code \<noteq> Some 0 then (Rejected (Chunks err), Some (Error []))
      else (Resolved out, None))"

definition getOutputFromCommand ::
  "env \<Rightarrow> string \<Rightarrow> string list \<Rightarrow> world \<Rightarrow> (failure + string list) \<times> world" where
  "getOutputFromCommand e command args w0 =
     (case spawn e command args (files w0) of
        (process, fs) \<Rightarrow>
          (let w = logged (Spawn command args) (w0\<lparr>files := fs\<rparr>) in
           case on_close (exit_code process) (stdout process) (stderr process) of
             (_, Some ex) \<Rightarrow> (Inl (UncaughtException ex), w)
           | (Rejected r, None) \<Rightarrow> (Inl (UnhandledRejection r), w)
           | (Resolved response, None) \<Rightarrow> (Inr response, w)))"

definition encryptHerokuToken :: "env \<Rightarrow> world \<Rightarrow> (failure + unit) \<times> world" where
  "encryptHerokuToken e w =
     andThen
       (getOutputFromCommand e ''openssl''
          [''rsautl'', ''-encrypt'', ''-pubin'', ''-inkey'', ''.tmp.key.pem'',
           ''-in'', ''.tmp.token.txt'', ''-out'', ''.tmp.token.enc''] w)
       (\<lambda>_ w1. (Inr (), w1))"

section \<open>\<^verbatim>\<open>updateTravisYAML\<close>\<close>

subsection \<open>The calls on the document\<close>

text \<open>
  \<^verbatim>\<open>doc.has\<close> and \<^verbatim>\<open>doc.set\<close> work on the contents of the document. A pair is found by the
  text of its key, the first one wins. \<^verbatim>\<open>set\<close> on a mapping replaces the value of the pair
  found, or appends a pair whose key is the plain string. On contents that are no collection
  \<^verbatim>\<open>has\<close> answers false and \<^verbatim>\<open>set\<close> throws; on a sequence the key must be an index, which
  neither \<^verbatim>\<open>"before_deploy"\<close> nor \<^verbatim>\<open>"deploy"\<close> is.
\<close>

fun has_key :: "string \<Rightarrow> (ykey, property) ypair list \<Rightarrow> bool" where
  "has_key k [] = False"
| "has_key k (p # ps) = (if key_text (pair_key p) = k then True else has_key k ps)"

fun get_key :: "string \<Rightarrow> (ykey, property) ypair list \<Rightarrow> (ykey, property) yval option" where
  "get_key k [] = None"
| "get_key k (p # ps) = (if key_text (pair_key p) = k then Some (pair_value p) else get_key k ps)"

fun set_key ::
  "string \<Rightarrow> (ykey, property) yval \<Rightarrow> (ykey, property) ypair list \<Rightarrow> (ykey, property) ypair list" where
  "set_key k v [] = [YPair (RawKey k) v Undefined Undefined]"
| "set_key k v (p # ps) =
     (if key_text (pair_key p) = k
      then YPair (pair_key p) v (pair_comment p) (pair_commentBefore p) # ps
      else p # set_key k v ps)"

definition doc_has :: "string \<Rightarrow> (ykey, property) document \<Rightarrow> bool" where
  "doc_has k doc = (case contents doc of Some (YMap items) \<Rightarrow> has_key k items | _ \<Rightarrow> False)"

definition doc_get :: "string \<Rightarrow> (ykey, property) document \<Rightarrow> (ykey, property) yval option" where
  "doc_get k doc = (case contents doc of Some (YMap items) \<Rightarrow> get_key k items | _ \<Rightarrow> None)"

definition doc_set ::
  "string \<Rightarrow> (ykey, property) yval \<Rightarrow> (ykey, property) document
     \<Rightarrow> thrown + (ykey, property) document" where
  "doc_set k v doc =
     (case contents doc of
        Some (YMap items) \<Rightarrow> Inr (doc\<lparr>contents := Some (YMap (set_key k v items))\<rparr>)
      | Some (YSeq _) \<Rightarrow> Inl (Error (''Expected a valid index, not '' @ k))
      | _ \<Rightarrow> Inl (Error ''Expected a YAML collection as document contents''))"

text \<open>The document in memory after \<^verbatim>\<open>YAML.parseDocument\<close>: every key is a scalar node.\<close>

definition in_memory :: "(string, string option) document \<Rightarrow> (ykey, property) document" where
  "in_memory d =
     \<lparr>contents = map_option (map_yval ScalarKey of_comment) (contents d),
      comment = of_comment (comment d),
      errors = errors d\<rparr>"

text \<open>
  \<^verbatim>\<open>YAML.createNode({skip_cleanup: true, provider: "heroku", app: app, api_key: {secure: key}})\<close>;
  an \<^verbatim>\<open>app\<close> that is \<^verbatim>\<open>undefined\<close> becomes a null scalar.
\<close>

definition deploy_node :: "string option \<Rightarrow> string \<Rightarrow> (ykey, property) yval" where
  "deploy_node app key =
     YMap [YPair (ScalarKey ''skip_cleanup'') (YBool True) Undefined Undefined,
           YPair (ScalarKey ''provider'') (YStr ''heroku'') Undefined Undefined,
           YPair (ScalarKey ''app'') (case app of None \<Rightarrow> YNull | Some a \<Rightarrow> YStr a)
                 Undefined Undefined,
           YPair (ScalarKey ''api_key'')
                 (YMap [YPair (ScalarKey ''secure'') (YStr key) Undefined Undefined])
                 Undefined Undefined]"

subsection \<open>The comments\<close>

text \<open>
  \<^verbatim>\<open>keyComments\<close> is a plain object, so besides its own properties it has the properties that
  every object inherits from \<^verbatim>\<open>Object.prototype\<close>. \<^verbatim>\<open>key in keyComments\<close> holds for the names
  of both kinds. \<^verbatim>\<open>keyComments[key]\<close> is the comment text for an own property, a function or
  an object for an inherited one, and \<^verbatim>\<open>undefined\<close> for any other name. An own property
  hides an inherited one of the same name.
\<close>

definition Object_prototype_names :: "string list" where
  "Object_prototype_names =
     [''constructor'', ''__defineGetter__'', ''__defineSetter__'', ''hasOwnProperty'',
      ''__lookupGetter__'', ''__lookupSetter__'', ''isPrototypeOf'', ''propertyIsEnumerable'',
      ''toString'', ''valueOf'', ''__proto__'', ''toLocaleString'']"

definition key_in :: "(string \<rightharpoonup> string) \<Rightarrow> string \<Rightarrow> bool" where
  "key_in kc k = (if kc k = None then k \<in> set Object_prototype_names else True)"

definition key_lookup :: "(string \<rightharpoonup> string) \<Rightarrow> string \<Rightarrow> property" where
  "key_lookup kc k =
     (case kc k of
        Some s \<Rightarrow> Str s
      | None \<Rightarrow> (if k \<in> set Object_prototype_names then NonString else Undefined))"

text \<open>
  \<^verbatim>\<open>item_.commentBefore = keyComments[item_.key]\<close> for every pair of the \<^verbatim>\<open>deploy\<close> mapping.
\<close>

definition comment_children ::
  "(string \<rightharpoonup> string) \<Rightarrow> (ykey, property) ypair list \<Rightarrow> (ykey, property) ypair list" where
  "comment_children kc children =
     map (\<lambda>child. YPair (pair_key child) (pair_value child) (pair_comment child)
                        (key_lookup kc (key_text (pair_key child)))) children"

text \<open>
  The body of the outer \<^verbatim>\<open>forEach\<close>. \<^verbatim>\<open>item.key === "deploy"\<close> holds for the plain string
  only. A value without \<^verbatim>\<open>items\<close> makes \<^verbatim>\<open>item.value.items.forEach\<close> throw; the entries of a
  sequence carry no comment in this model.
\<close>

definition comment_item ::
  "(string \<rightharpoonup> string) \<Rightarrow> (ykey, property) ypair \<Rightarrow> thrown + (ykey, property) ypair" where
  "comment_item kc item =
     (let c = key_lookup kc (key_text (pair_key item)) in
      if pair_key item = RawKey ''deploy'' then
        (case pair_value item of
           YMap children \<Rightarrow>
             Inr (YPair (pair_key item) (YMap (comment_children kc children)) c
                        (pair_commentBefore item))
         | YSeq xs \<Rightarrow> Inr (YPair (pair_key item) (YSeq xs) c (pair_commentBefore item))
         | _ \<Rightarrow> Inl (TypeError ''Cannot read property forEach of undefined''))
      else Inr (YPair (pair_key item) (pair_value item) c (pair_commentBefore item)))"

text \<open>\<^verbatim>\<open>doc.contents.items.filter(item => item.key in keyComments).forEach(...)\<close>.\<close>

fun comment_items ::
  "(string \<rightharpoonup> string) \<Rightarrow> (ykey, property) ypair list \<Rightarrow> thrown + (ykey, property) ypair list" where
  "comment_items kc [] = Inr []"
| "comment_items kc (item # rest) =
     (if \<not> key_in kc (key_text (pair_key item)) then
        (case comment_items kc rest of
           Inl ex \<Rightarrow> Inl ex
         | Inr rest1 \<Rightarrow> Inr (item # rest1))
      else
        (case comment_item kc item of
           Inl ex \<Rightarrow> Inl ex
         | Inr item1 \<Rightarrow>
             (case comment_items kc rest of
                Inl ex \<Rightarrow> Inl ex
              | Inr rest1 \<Rightarrow> Inr (item1 # rest1))))"

definition comment_document ::
  "(string \<rightharpoonup> string) \<Rightarrow> (ykey, property) document \<Rightarrow> thrown + (ykey, property) document" where
  "comment_document kc doc =
     (case contents doc of
        Some (YMap items) \<Rightarrow>
          (case comment_items kc items of
             Inl ex \<Rightarrow> Inl ex
           | Inr items1 \<Rightarrow> Inr (doc\<lparr>contents := Some (YMap items1)\<rparr>))
      | _ \<Rightarrow> Inl (TypeError ''Cannot read property filter of undefined''))"

subsection \<open>The function\<close>

definition idempotenceMessage :: string where
  "idempotenceMessage =
     ''It appears that your token has been encrypted.'' @ [CHR 0x0A]
     @ ''To run this script again, delete the `before_deploy` and `deploy` keys'' @ [CHR 0x0A]
     @ ''from the .travis.yml file.''"

definition successMessage :: string where
  "successMessage = ''Complete! Run `git diff .travis.yml` to check.''"

text \<open>What the function returns: \<^verbatim>\<open>true\<close>, or the \<^verbatim>\<open>undefined\<close> of \<^verbatim>\<open>console.log\<close>.\<close>

datatype returned = JTrue | JUndefined

text \<open>Lines 115 to 135: the changes to the document between the guard and the write.\<close>

definition update_document ::
  "(string \<rightharpoonup> string) \<Rightarrow> string option \<Rightarrow> string \<Rightarrow> (ykey, property) document
     \<Rightarrow> thrown + (ykey, property) document" where
  "update_document kc app key doc =
     (case doc_set ''before_deploy'' (YSeq [YStr ''rm -rf node_modules'']) doc of
        Inl ex \<Rightarrow> Inl ex
      | Inr doc1 \<Rightarrow>
          (case doc_set ''deploy'' (deploy_node app key) doc1 of
             Inl ex \<Rightarrow> Inl ex
           | Inr doc2 \<Rightarrow>
               (case comment_document kc doc2 of
                  Inl ex \<Rightarrow> Inl ex
                | Inr doc3 \<Rightarrow> Inr (doc3\<lparr>comment := Str []\<rparr>))))"

text \<open>
  \<^verbatim>\<open>doc.toString()\<close> throws for a document with errors, and it throws when it meets a comment
  that is neither a string nor \<^verbatim>\<open>undefined\<close>, whose string methods it calls. Otherwise it
  returns the text.
\<close>

definition string_comments :: "(ykey, property) document \<Rightarrow> bool" where
  "string_comments doc =
     (comment doc \<noteq> NonString
      \<and> (case contents doc of None \<Rightarrow> True | Some v \<Rightarrow> NonString \<notin> comments_yval v))"

definition doc_toString :: "env \<Rightarrow> (ykey, property) document \<Rightarrow> thrown + string" where
  "doc_toString e doc =
     (if errors doc \<noteq> [] then Inl (Error ''Document with errors cannot be stringified'')
      else if \<not> string_comments doc then Inl (TypeError ''comment.indexOf is not a function'')
      else Inr (stringify e doc))"

definition updateTravisYAML ::
  "env \<Rightarrow> string option \<Rightarrow> string \<Rightarrow> world \<Rightarrow> (thrown + returned) \<times> world" where
  "updateTravisYAML e app key w0 =
     (case readFileSync ''.travis.yml'' w0 of
        (Inl ex, w) \<Rightarrow> (Inl ex, w)
      | (Inr travis, w) \<Rightarrow>
          (let doc = in_memory (parseDocument e travis) in
           if doc_has ''before_deploy'' doc then (Inr JUndefined, console_log idempotenceMessage w)
           else
             (case update_document (keyComments e) app key doc of
                Inl ex \<Rightarrow> (Inl ex, w)
              | Inr doc1 \<Rightarrow>
                  (case doc_toString e doc1 of
                     Inl ex \<Rightarrow> (Inl ex, w)
                   | Inr printed \<Rightarrow> (Inr JTrue, writeFileSync ''.travis.yml'' printed w)))))"

section \<open>\<^verbatim>\<open>main\<close>\<close>

text \<open>\<^verbatim>\<open>process.argv.hasOwnProperty(2)\<close>: the array has an element at index 2.\<close>

definition verbose :: "env \<Rightarrow> bool" where
  "verbose e = (2 < length (argv e))"

text \<open>\<^verbatim>\<open>Array.prototype.toString\<close> ignores its argument and joins the elements with commas.\<close>

fun Array_toString :: "string list \<Rightarrow> string" where
  "Array_toString [] = []"
| "Array_toString [x] = x"
| "Array_toString (x # y # ys) = x @ '','' @ Array_toString (y # ys)"

text \<open>\<^verbatim>\<open>String.prototype.slice(start, end)\<close>: a negative index counts from the end, and both
  are clamped to the string.\<close>

definition slice :: "int \<Rightarrow> int \<Rightarrow> string \<Rightarrow> string" where
  "slice start stop s =
     (let len = int (length s);
          from = (if start < 0 then max (len + start) 0 else min start len);
          to = (if stop < 0 then max (len + stop) 0 else min stop len)
      in take (nat (to - from)) (drop (nat from) s))"

definition herokuTokenStr :: "string list \<Rightarrow> string" where
  "herokuTokenStr herokuTokenOut = Array_toString herokuTokenOut"

definition herokuToken :: "string list \<Rightarrow> string" where
  "herokuToken herokuTokenOut =
     slice 0 (int (length (herokuTokenStr herokuTokenOut)) - 1) (herokuTokenStr herokuTokenOut)"

text \<open>A value inside a template literal: \<^verbatim>\<open>undefined\<close> is printed as such.\<close>

definition template :: "string option \<Rightarrow> string" where
  "template v = (case v of None \<Rightarrow> ''undefined'' | Some s \<Rightarrow> s)"

definition travisURL :: "string option \<Rightarrow> string" where
  "travisURL repo = ''https://api.travis-ci.org/repos/'' @ template repo @ ''/key''"

definition log_if :: "bool \<Rightarrow> string \<Rightarrow> world \<Rightarrow> world" where
  "log_if b msg w = (if b then console_log msg w else w)"

text \<open>
  \<^verbatim>\<open>axios.get(travisURL)\<close>, then \<^verbatim>\<open>travisResponse.data.key\<close> and \<^verbatim>\<open>Buffer.from(key, "utf-8")\<close>,
  which throws when the key is \<^verbatim>\<open>undefined\<close>.
\<close>

definition fetch_key :: "env \<Rightarrow> string \<Rightarrow> world \<Rightarrow> (failure + string) \<times> world" where
  "fetch_key e url w0 =
     (let w = logged (HttpGet url) w0 in
      case axios_get e url of
        Inl ex \<Rightarrow> (Inl (UnhandledRejection ex), w)
      | Inr None \<Rightarrow>
          (Inl (UnhandledRejection (TypeError ''The first argument must be of type string'')), w)
      | Inr (Some key) \<Rightarrow> (Inr key, w))"

text \<open>Lines 165 to 186, after the encryption.\<close>

definition main_finish :: "env \<Rightarrow> names \<Rightarrow> world \<Rightarrow> (failure + unit) \<times> world" where
  "main_finish e ns w =
     andThen (rejecting (readFileSync ''.tmp.token.enc'' w)) (\<lambda>enc w1.
       let keyBase64 = base64 e enc;
           w2 = log_if (verbose e) (''Encrypted key base 64 encoded: '' @ keyBase64) w1
       in
       andThen (rejecting (clean w2)) (\<lambda>_ w3.
       andThen (rejecting (updateTravisYAML e (appName ns) keyBase64 w3)) (\<lambda>update w4.
         (Inr (), (log_if (update = JTrue) successMessage w4)\<lparr>handlers := True\<rparr>))))"

text \<open>Lines 141 to 162, and then the rest.\<close>

definition main :: "env \<Rightarrow> world \<Rightarrow> (failure + unit) \<times> world" where
  "main e w =
     andThen (getNamesFromGit e w) (\<lambda>ns w1.
     andThen (getOutputFromCommand e ''heroku'' [''auth:token''] w1) (\<lambda>herokuTokenOut w2.
       let w3 = log_if (verbose e) (''Received Heroku token '' @ herokuToken herokuTokenOut) w2
       in
       andThen (fetch_key e (travisURL (fullName ns)) w3) (\<lambda>key w4.
         let w5 = log_if (verbose e) (''Received Travis pubkey:'' @ [CHR 0x0A] @ '' '' @ key) w4;
             w6 = writeFileSync ''.tmp.key.pem'' key w5;
             w7 = writeFileSync ''.tmp.token.txt'' (herokuToken herokuTokenOut) w6
         in
         andThen (encryptHerokuToken e w7) (\<lambda>_ w8. main_finish e ns w8))))"

section \<open>The process\<close>

text \<open>
  A failure goes to the listeners of the process if they are installed: they call
  \<^verbatim>\<open>clean\<close>, log under the verbose flag and call \<^verbatim>\<open>process.exit(1)\<close> (a listener that throws
  ends the process with code 7). Without listeners the runtime ends the process: with code
  1 for an uncaught exception, with \<open>unhandled_exit\<close> for an unhandled rejection. A run
  without failure ends with code 0.
\<close>

definition on_failure :: "env \<Rightarrow> failure \<Rightarrow> world \<Rightarrow> nat \<times> world" where
  "on_failure e f w =
     (if handlers w then
        (case clean w of
           (Inl ex, w1) \<Rightarrow> (7, w1)
         | (Inr _, w1) \<Rightarrow> (1, log_if (verbose e) ''Cleaned up on error!'' w1))
      else
        (case f of
           UncaughtException ex \<Rightarrow> (1, w)
         | UnhandledRejection ex \<Rightarrow> (unhandled_exit e, w)))"

definition run :: "env \<Rightarrow> world \<Rightarrow> nat \<times> world" where
  "run e w =
     (case main e w of
        (Inl f, w1) \<Rightarrow> on_failure e f w1
      | (Inr _, w1) \<Rightarrow> (0, w1))"

section \<open>Reading a run\<close>

subsection \<open>The steps of the procedure\<close>

text \<open>
  Every call of the log belongs to one step: the git call to the resolution of the
  remotes, the heroku command to the credential fetch, the request to the public-key fetch,
  the openssl command and the reads and writes of the temporary files to the encryption,
  reads and writes of \<^verbatim>\<open>.travis.yml\<close> to the document update, and the existence tests and
  removals to the cleanup. \<open>steps_of\<close> gives the steps of a log in the order they ran, a
  step that made several calls in a row counted once.
\<close>

datatype step =
    RemoteResolution
  | CredentialFetch
  | PublicKeyFetch
  | Encryption
  | DocumentUpdate
  | Cleanup

fun step_of :: "call \<Rightarrow> step" where
  "step_of GitGetRemotes = RemoteResolution"
| "step_of (Spawn command args) = (if command = ''heroku'' then CredentialFetch else Encryption)"
| "step_of (HttpGet url) = PublicKeyFetch"
| "step_of (FileExists p) = Cleanup"
| "step_of (FileUnlink p) = Cleanup"
| "step_of (FileRead p) = (if p = ''.travis.yml'' then DocumentUpdate else Encryption)"
| "step_of (FileWrite p s) = (if p = ''.travis.yml'' then DocumentUpdate else Encryption)"

fun steps_of :: "call list \<Rightarrow> step list" where
  "steps_of [] = []"
| "steps_of [c] = [step_of c]"
| "steps_of (c # d # cs) =
     (if step_of c = step_of d then steps_of (d # cs) else step_of c # steps_of (d # cs))"

subsection \<open>Worlds and results that differ in the console only\<close>

definition sim :: "world \<Rightarrow> world \<Rightarrow> bool" where
  "sim w w' = (files w = files w' \<and> calls w = calls w' \<and> handlers w = handlers w')"

definition agree :: "'a \<times> world \<Rightarrow> 'a \<times> world \<Rightarrow> bool" where
  "agree m m' = (fst m = fst m' \<and> sim (snd m) (snd m'))"

subsection \<open>Pairs whose comments can be set and printed\<close>

text \<open>
  \<open>inherited kc k\<close>: the name \<open>k\<close> is no own property of the table but one that it inherits, so
  that \<^verbatim>\<open>keyComments[k]\<close> is no string.

  A pair on which \<open>comment_item\<close> does not throw and that can be printed afterwards: none of
  its comments is a non-string, its key is not inherited, and when its key is the plain
  string \<open>deploy\<close> its value is a mapping none of whose keys is inherited.
\<close>

definition inherited :: "(string \<rightharpoonup> string) \<Rightarrow> string \<Rightarrow> bool" where
  "inherited kc k = (key_lookup kc k = NonString)"

definition commentable :: "(string \<rightharpoonup> string) \<Rightarrow> (ykey, property) ypair \<Rightarrow> bool" where
  "commentable kc p =
     (NonString \<notin> comments_ypair p
      \<and> \<not> inherited kc (key_text (pair_key p))
      \<and> (case pair_key p of
            ScalarKey s \<Rightarrow> True
          | RawKey s \<Rightarrow>
              (if s = ''deploy''
               then (case pair_value p of
                       YMap cs \<Rightarrow> \<not> list_ex (\<lambda>c. inherited kc (key_text (pair_key c))) cs
                     | _ \<Rightarrow> False)
               else True)))"

section \<open>Example runs\<close>

text \<open>
  A repository with the remotes \<open>origin\<close> and \<open>heroku\<close>, a heroku command that prints a
  token and a newline, a Travis API that answers with a key, and a \<^verbatim>\<open>.travis.yml\<close> that holds
  one key. The parser and the printer of the example know the few documents used below.
  \<open>demo_GitUrlParse\<close> throws when its argument is no string, as \<^verbatim>\<open>git-url-parse\<close> does.
\<close>

definition demo_remotes :: "remote list" where
  "demo_remotes =
     [\<lparr>remote_name = ''origin'', refs_fetch = ''git@github.com:dev-vp/app.git''\<rparr>,
      \<lparr>remote_name = ''heroku'', refs_fetch = ''https://git.heroku.com/pair-app.git''\<rparr>]"

definition demo_GitUrlParse :: "string option \<Rightarrow> thrown + git_url" where
  "demo_GitUrlParse url =
     (case url of
        None \<Rightarrow> Inl (Error ''The url must be a string.'')
      | Some s \<Rightarrow>
          (if s = ''git@github.com:dev-vp/app.git''
           then Inr \<lparr>full_name = Some ''dev-vp/app'', url_name = Some ''app''\<rparr>
           else Inr \<lparr>full_name = Some ''pair-app'', url_name = Some ''pair-app''\<rparr>))"

definition demo_spawn ::
  "string \<Rightarrow> string list \<Rightarrow> (path \<rightharpoonup> string) \<Rightarrow> child \<times> (path \<rightharpoonup> string)" where
  "demo_spawn command args fs =
     (if command = ''heroku''
      then (\<lparr>exit_code = Some 0, stdout = [''secret'' @ [CHR 0x0A]], stderr = []\<rparr>, fs)
      else (\<lparr>exit_code = Some 0, stdout = [], stderr = []\<rparr>,
            fs(''.tmp.token.enc'' \<mapsto> ''ciphertext'')))"

text \<open>The same, with an openssl that cannot load the key and exits with code 1.\<close>

definition failing_openssl ::
  "string \<Rightarrow> string list \<Rightarrow> (path \<rightharpoonup> string) \<Rightarrow> child \<times> (path \<rightharpoonup> string)" where
  "failing_openssl command args fs =
     (if command = ''heroku''
      then (\<lparr>exit_code = Some 0, stdout = [''secret'' @ [CHR 0x0A]], stderr = []\<rparr>, fs)
      else (\<lparr>exit_code = Some 1, stdout = [], stderr = [''unable to load Public Key'']\<rparr>, fs))"

definition demo_parse :: "string \<Rightarrow> (string, string option) document" where
  "demo_parse s =
     (if s = ''language: node_js''
      then \<lparr>contents = Some (YMap [YPair ''language'' (YStr ''node_js'') None None]),
            comment = None, errors = []\<rparr>
      else if s = ''before_deploy: []''
      then \<lparr>contents = Some (YMap [YPair ''before_deploy'' (YSeq []) None None]),
            comment = None, errors = []\<rparr>
      else if s = ''constructor: x''
      then \<lparr>contents = Some (YMap [YPair ''constructor'' (YStr ''x'') None None]),
            comment = None, errors = []\<rparr>
      else if s = ''os: linux'' @ [CHR 0x0A] @ ''os: osx''
      then \<lparr>contents = Some (YMap [YPair ''os'' (YStr ''linux'') None None,
                                     YPair ''os'' (YStr ''osx'') None None]),
            comment = None, errors = [''Map keys must be unique; os is repeated'']\<rparr>
      else \<lparr>contents = Some (YStr s), comment = None, errors = []\<rparr>)"

definition demo_stringify :: "(ykey, property) document \<Rightarrow> string" where
  "demo_stringify doc =
     (case contents doc of
        Some (YMap items) \<Rightarrow> concat (map (\<lambda>p. key_text (pair_key p) @ '';'') items)
      | _ \<Rightarrow> [])"

definition demo_env :: env where
  "demo_env =
     \<lparr>argv = [''node'', ''encrypt-heroku-auth-token.js''],
      getRemotes = Inr demo_remotes,
      GitUrlParse = demo_GitUrlParse,
      spawn = demo_spawn,
      axios_get = (\<lambda>url. Inr (Some ''PEM'')),
      base64 = (\<lambda>s. ''Y2lwaGVy''),
      keyComments = [''deploy'' \<mapsto> ''deployment''],
      parseDocument = demo_parse,
      stringify = demo_stringify,
      unhandled_exit = 1\<rparr>"

definition demo_world :: world where
  "demo_world =
     \<lparr>files = [''.travis.yml'' \<mapsto> ''language: node_js''],
      console = [], calls = [], handlers = False\<rparr>"

section \<open>Properties of \<^verbatim>\<open>clean\<close>\<close>

lemma clean_forEach_Cons:
  "clean_forEach (file # rest) w =
     (if files w file = None then clean_forEach rest (logged (FileExists file) w)
      else clean_forEach rest
             (logged (FileUnlink file)
                ((logged (FileExists file) w)\<lparr>files := (files w)(file := None)\<rparr>)))"
  by (auto simp: existsSync_def unlinkSync_def logged_def)

lemma clean_forEach_returns: "fst (clean_forEach ps w) = Inr ()"
  by (induction ps arbitrary: w) (simp_all add: clean_forEach_Cons del: clean_forEach.simps(2))

lemma clean_forEach_files:
  "files (snd (clean_forEach ps w)) = (\<lambda>p. if p \<in> set ps then None else files w p)"
  by (induction ps arbitrary: w)
     (auto simp: clean_forEach_Cons logged_def fun_eq_iff simp del: clean_forEach.simps(2))

lemma clean_forEach_console: "console (snd (clean_forEach ps w)) = console w"
  by (induction ps arbitrary: w)
     (simp_all add: clean_forEach_Cons logged_def del: clean_forEach.simps(2))

lemma clean_forEach_handlers: "handlers (snd (clean_forEach ps w)) = handlers w"
  by (induction ps arbitrary: w)
     (simp_all add: clean_forEach_Cons logged_def del: clean_forEach.simps(2))

lemma clean_returns: "fst (clean w) = Inr ()"
  by (simp add: clean_def clean_forEach_returns)

lemma clean_files:
  "files (snd (clean w)) = (\<lambda>p. if p \<in> set externalFiles then None else files w p)"
  by (simp add: clean_def clean_forEach_files)

lemma clean_times_returns: "fst (clean_times n w) = Inr ()"
proof (induction n arbitrary: w)
  case 0
  show ?case by simp
next
  case (Suc n)
  obtain r w1 where c: "clean w = (r, w1)" by (cases "clean w")
  with clean_returns [of w] have "r = Inr ()" by simp
  with c Suc show ?case by simp
qed

lemma clean_times_files_other:
  "p \<notin> set externalFiles \<Longrightarrow> files (snd (clean_times n w)) p = files w p"
proof (induction n arbitrary: w)
  case 0
  show ?case by simp
next
  case (Suc n)
  obtain r w1 where c: "clean w = (r, w1)" by (cases "clean w")
  with clean_returns [of w] have r: "r = Inr ()" by simp
  from c clean_files [of w] Suc.prems have "files w1 p = files w p" by simp
  with c r Suc show ?case by simp
qed

section \<open>Properties of the token\<close>

lemma slice_butlast: "slice 0 (int (length s) - 1) s = butlast s"
  by (cases s rule: rev_cases) (auto simp: slice_def Let_def butlast_conv_take)

lemma herokuToken_butlast: "herokuToken out = butlast (Array_toString out)"
  unfolding herokuToken_def herokuTokenStr_def by (rule slice_butlast)

section \<open>Properties of the document update\<close>

lemma get_key_set_key_same: "get_key k (set_key k v items) = Some v"
  by (induction items) simp_all

lemma get_key_set_key_other: "k' \<noteq> k \<Longrightarrow> get_key k' (set_key k v items) = get_key k' items"
  by (induction items) simp_all

lemma get_key_pairJS: "map_option toJS (get_key k items) = map_of (map pairJS items) k"
proof (induction items)
  case Nil
  show ?case by simp
next
  case (Cons p ps)
  then show ?case by (cases p) simp
qed

lemma pairJS_comment_children: "map pairJS (comment_children kc cs) = map pairJS cs"
  by (induction cs) (simp_all add: comment_children_def, (case_tac a, simp)+)

lemma comments_comment_children:
  "\<not> list_ex (\<lambda>c. inherited kc (key_text (pair_key c))) cs \<Longrightarrow>
   NonString \<notin> comments_yval (YMap cs) \<Longrightarrow>
   NonString \<notin> comments_yval (YMap (comment_children kc cs))"
proof (induction cs)
  case Nil
  then show ?case by (simp add: comment_children_def)
next
  case (Cons c cs)
  then show ?case
    by (cases c) (auto simp: comment_children_def inherited_def)
qed

lemma comment_item_ok:
  assumes "commentable kc p"
  shows "\<exists>p'. comment_item kc p = Inr p' \<and> pairJS p' = pairJS p
              \<and> NonString \<notin> comments_ypair p'"
proof (cases p)
  case (YPair k v c cb)
  from assms YPair have nk: "key_lookup kc (key_text k) \<noteq> NonString"
    and nv: "NonString \<notin> comments_yval v" and ncb: "cb \<noteq> NonString"
    by (auto simp: commentable_def inherited_def)
  show ?thesis
  proof (cases "k = RawKey ''deploy''")
    case False
    with YPair nk nv ncb show ?thesis
      by (auto simp: comment_item_def Let_def)
  next
    case True
    with assms YPair obtain cs where v: "v = YMap cs"
      and cs: "\<not> list_ex (\<lambda>c. inherited kc (key_text (pair_key c))) cs"
      by (auto simp: commentable_def split: yval.splits)
    from comments_comment_children [OF cs] nv v
    have "NonString \<notin> comments_yval (YMap (comment_children kc cs))" by simp
    with YPair True v nk ncb show ?thesis
      by (simp add: comment_item_def Let_def pairJS_comment_children)
  qed
qed

lemma commentable_comments: "commentable kc p \<Longrightarrow> NonString \<notin> comments_ypair p"
  by (simp add: commentable_def)

lemma comment_items_ok:
  "list_all (commentable kc) items \<Longrightarrow>
   \<exists>items'. comment_items kc items = Inr items' \<and> map pairJS items' = map pairJS items
           \<and> NonString \<notin> comments_yval (YMap items')"
proof (induction items)
  case Nil
  show ?case by simp
next
  case (Cons p ps)
  then obtain ps' where ps': "comment_items kc ps = Inr ps'" "map pairJS ps' = map pairJS ps"
    "NonString \<notin> comments_yval (YMap ps')"
    by auto
  from Cons.prems obtain p' where p': "comment_item kc p = Inr p'" "pairJS p' = pairJS p"
    "NonString \<notin> comments_ypair p'"
    using comment_item_ok [of kc p] by auto
  from Cons.prems have p0: "NonString \<notin> comments_ypair p"
    by (auto dest: commentable_comments)
  show ?case using ps' p' p0 by simp
qed

lemma set_key_keeps_commentable:
  "list_all (commentable kc) items \<Longrightarrow> k \<noteq> ''deploy'' \<Longrightarrow> \<not> inherited kc k \<Longrightarrow>
   NonString \<notin> comments_yval v \<Longrightarrow>
   list_all (commentable kc) (set_key k v items)"
proof (induction items)
  case Nil
  then show ?case by (simp add: commentable_def)
next
  case (Cons p ps)
  then show ?case
    by (cases p) (auto simp: commentable_def split: ykey.splits)
qed

lemma not_inherited_deploy_keys:
  "\<not> inherited kc ''deploy''" "\<not> inherited kc ''before_deploy''"
  "\<not> inherited kc ''skip_cleanup''" "\<not> inherited kc ''provider''"
  "\<not> inherited kc ''app''" "\<not> inherited kc ''api_key''"
  by (simp_all add: inherited_def key_lookup_def Object_prototype_names_def split: option.splits)

lemma comments_deploy_node: "NonString \<notin> comments_yval (deploy_node app key)"
  by (simp add: deploy_node_def split: option.splits)

lemma set_key_deploy_commentable:
  "list_all (commentable kc) items \<Longrightarrow>
   list_all (commentable kc) (set_key ''deploy'' (deploy_node app key) items)"
proof (induction items)
  case Nil
  then show ?case
    by (simp add: commentable_def deploy_node_def not_inherited_deploy_keys
             split: option.splits)
next
  case (Cons p ps)
  then show ?case
    by (cases p)
       (auto simp: commentable_def deploy_node_def not_inherited_deploy_keys
             split: ykey.splits option.splits)
qed

lemma of_comment_string: "NonString \<noteq> of_comment c"
  by (cases c) simp_all

lemma comments_parsed_pair: "NonString \<notin> comments_ypair (map_ypair ScalarKey of_comment p)"
  by (auto simp: ypair.set_map of_comment_string)

lemma parsed_commentable:
  "\<not> list_ex (\<lambda>p. inherited kc (pair_key p)) items \<Longrightarrow>
   list_all (commentable kc) (map (map_ypair ScalarKey of_comment) items)"
  by (induction items)
     (simp_all add: commentable_def ypair.map_sel comments_parsed_pair)

lemma toJS_deploy_node:
  "toJS (deploy_node (Some app) key)
     = JObj [(''skip_cleanup'', JBool True), (''provider'', JStr ''heroku''),
             (''app'', JStr app), (''api_key'', JObj [(''secure'', JStr key)])]"
  by (simp add: deploy_node_def)

lemma update_document_mapping:
  assumes "contents doc = Some (YMap items)" and "list_all (commentable kc) items"
  shows "\<exists>doc'. update_document kc app key doc = Inr doc'
           \<and> errors doc' = errors doc \<and> string_comments doc'
           \<and> map_option toJS (doc_get ''before_deploy'' doc')
               = Some (JList [JStr ''rm -rf node_modules''])
           \<and> map_option toJS (doc_get ''deploy'' doc') = Some (toJS (deploy_node app key))"
proof -
  let ?i1 = "set_key ''before_deploy'' (YSeq [YStr ''rm -rf node_modules'']) items"
  let ?i2 = "set_key ''deploy'' (deploy_node app key) ?i1"
  have good: "list_all (commentable kc) ?i2"
    using assms(2)
    by (intro set_key_deploy_commentable set_key_keeps_commentable)
       (simp_all add: not_inherited_deploy_keys)
  then obtain i3 where i3: "comment_items kc ?i2 = Inr i3" "map pairJS i3 = map pairJS ?i2"
    "NonString \<notin> comments_yval (YMap i3)"
    using comment_items_ok by blast
  let ?doc' = "doc\<lparr>contents := Some (YMap i3), comment := Str []\<rparr>"
  have upd: "update_document kc app key doc = Inr ?doc'"
    using assms(1) i3(1)
    by (simp add: update_document_def doc_set_def comment_document_def)
  have pr: "string_comments ?doc'"
    using i3(3) by (simp add: string_comments_def)
  have bd: "map_option toJS (get_key ''before_deploy'' i3)
              = Some (JList [JStr ''rm -rf node_modules''])"
  proof -
    have "map_option toJS (get_key ''before_deploy'' i3)
            = map_option toJS (get_key ''before_deploy'' ?i2)"
      by (simp only: get_key_pairJS i3(2))
    also have "\<dots> = map_option toJS (get_key ''before_deploy'' ?i1)"
      by (simp add: get_key_set_key_other)
    also have "\<dots> = Some (JList [JStr ''rm -rf node_modules''])"
      by (simp add: get_key_set_key_same)
    finally show ?thesis .
  qed
  have dp: "map_option toJS (get_key ''deploy'' i3) = Some (toJS (deploy_node app key))"
  proof -
    have "map_option toJS (get_key ''deploy'' i3) = map_option toJS (get_key ''deploy'' ?i2)"
      by (simp only: get_key_pairJS i3(2))
    also have "\<dots> = Some (toJS (deploy_node app key))"
      by (simp only: get_key_set_key_same option.map)
    finally show ?thesis .
  qed
  show ?thesis using upd bd dp pr by (simp add: doc_get_def)
qed

lemma updateTravisYAML_guard:
  "files w ''.travis.yml'' = Some travis \<Longrightarrow>
   doc_has ''before_deploy'' (in_memory (parseDocument e travis)) \<Longrightarrow>
   updateTravisYAML e app key w
     = (Inr JUndefined, console_log idempotenceMessage (logged (FileRead ''.travis.yml'') w))"
  by (simp add: updateTravisYAML_def readFileSync_def)

section \<open>The call log of a run\<close>

lemma andThen_InrE:
  assumes "fst (andThen m k) = Inr y"
  obtains x w1 where "m = (Inr x, w1)" and "fst (k x w1) = Inr y"
    and "snd (andThen m k) = snd (k x w1)"
  using assms by (cases m; cases "fst m") (auto simp: andThen_def)

lemma rejecting_Inr: "rejecting m = (Inr x, w) \<Longrightarrow> m = (Inr x, w)"
  by (cases m; cases "fst m") (auto simp: rejecting_def)

lemma calls_getRemoteURL: "getRemoteURL nm remotes w = (u, w1) \<Longrightarrow> calls w1 = calls w"
  by (auto simp: getRemoteURL_def console_log_def split: list.splits)

lemma calls_getNamesFromGit:
  "getNamesFromGit e w = (r, w1) \<Longrightarrow> calls w1 = calls w @ [GitGetRemotes]"
  by (auto simp: getNamesFromGit_def Let_def logged_def dest!: calls_getRemoteURL
           split: sum.splits prod.splits)

lemma calls_getOutputFromCommand:
  "getOutputFromCommand e command args w = (r, w1) \<Longrightarrow>
   calls w1 = calls w @ [Spawn command args]"
  by (auto simp: getOutputFromCommand_def on_close_def logged_def Let_def
           split: prod.splits if_splits)

lemma calls_encryptHerokuToken:
  "encryptHerokuToken e w = (r, w1) \<Longrightarrow>
   calls w1 = calls w @ [Spawn ''openssl''
          [''rsautl'', ''-encrypt'', ''-pubin'', ''-inkey'', ''.tmp.key.pem'',
           ''-in'', ''.tmp.token.txt'', ''-out'', ''.tmp.token.enc'']]"
  by (auto simp: encryptHerokuToken_def andThen_def dest!: calls_getOutputFromCommand
           split: prod.splits sum.splits)

lemma calls_fetch_key: "fetch_key e url w = (r, w1) \<Longrightarrow> calls w1 = calls w @ [HttpGet url]"
  by (auto simp: fetch_key_def logged_def Let_def split: sum.splits option.splits)

lemma calls_log_if: "calls (log_if b msg w) = calls w"
  by (simp add: log_if_def console_log_def)

lemma calls_writeFileSync: "calls (writeFileSync p s w) = calls w @ [FileWrite p s]"
  by (simp add: writeFileSync_def logged_def)

lemma calls_clean_forEach:
  "\<exists>cl. calls (snd (clean_forEach ps w)) = calls w @ cl
        \<and> list_all (\<lambda>c. step_of c = Cleanup) cl \<and> (ps = [] \<or> cl \<noteq> [])"
proof (induction ps arbitrary: w)
  case Nil
  show ?case by simp
next
  case (Cons f rest)
  show ?case
  proof (cases "files w f = None")
    case True
    from Cons [of "logged (FileExists f) w"] obtain cl where
      "calls (snd (clean_forEach rest (logged (FileExists f) w)))
         = calls (logged (FileExists f) w) @ cl" "list_all (\<lambda>c. step_of c = Cleanup) cl"
      by blast
    then have "calls (snd (clean_forEach (f # rest) w)) = calls w @ (FileExists f # cl)
               \<and> list_all (\<lambda>c. step_of c = Cleanup) (FileExists f # cl)"
      using True by (simp add: clean_forEach_Cons logged_def del: clean_forEach.simps(2))
    then show ?thesis by blast
  next
    case False
    let ?w1 = "logged (FileUnlink f)
                ((logged (FileExists f) w)\<lparr>files := (files w)(f := None)\<rparr>)"
    from Cons [of ?w1] obtain cl where
      "calls (snd (clean_forEach rest ?w1)) = calls ?w1 @ cl"
      "list_all (\<lambda>c. step_of c = Cleanup) cl"
      by blast
    then have "calls (snd (clean_forEach (f # rest) w))
                 = calls w @ (FileExists f # FileUnlink f # cl)
               \<and> list_all (\<lambda>c. step_of c = Cleanup) (FileExists f # FileUnlink f # cl)"
      using False by (auto simp add: clean_forEach_Cons logged_def simp del: clean_forEach.simps(2))
    then show ?thesis by blast
  qed
qed

lemma calls_clean:
  "\<exists>cl. calls (snd (clean w)) = calls w @ cl
        \<and> list_all (\<lambda>c. step_of c = Cleanup) cl \<and> cl \<noteq> []"
  using calls_clean_forEach [of externalFiles w] by (auto simp: clean_def externalFiles_def)

lemma calls_updateTravisYAML:
  "fst (updateTravisYAML e app key w) = Inr r \<Longrightarrow>
   \<exists>upd. calls (snd (updateTravisYAML e app key w)) = calls w @ upd
        \<and> list_all (\<lambda>c. step_of c = DocumentUpdate) upd \<and> upd \<noteq> []"
  by (auto simp: updateTravisYAML_def readFileSync_def writeFileSync_def logged_def
                 console_log_def Let_def
           split: option.splits sum.splits if_splits)

lemma calls_main_finish:
  assumes "fst (main_finish e ns w) = Inr ()"
  shows "\<exists>cl upd. calls (snd (main_finish e ns w))
                    = calls w @ [FileRead ''.tmp.token.enc''] @ cl @ upd
          \<and> list_all (\<lambda>c. step_of c = Cleanup) cl \<and> cl \<noteq> []
          \<and> list_all (\<lambda>c. step_of c = DocumentUpdate) upd \<and> upd \<noteq> []"
proof -
  from assms obtain enc w1 where
    r1: "rejecting (readFileSync ''.tmp.token.enc'' w) = (Inr enc, w1)"
    and f1: "fst (andThen (rejecting (clean (log_if (verbose e)
                 (''Encrypted key base 64 encoded: '' @ base64 e enc) w1))) (\<lambda>_ w3.
               andThen (rejecting (updateTravisYAML e (appName ns) (base64 e enc) w3))
                 (\<lambda>update w4.
                   (Inr (), (log_if (update = JTrue) successMessage w4)\<lparr>handlers := True\<rparr>))))
             = Inr ()"
    and s1: "snd (main_finish e ns w)
             = snd (andThen (rejecting (clean (log_if (verbose e)
                 (''Encrypted key base 64 encoded: '' @ base64 e enc) w1))) (\<lambda>_ w3.
               andThen (rejecting (updateTravisYAML e (appName ns) (base64 e enc) w3))
                 (\<lambda>update w4.
                   (Inr (), (log_if (update = JTrue) successMessage w4)\<lparr>handlers := True\<rparr>))))"
    unfolding main_finish_def Let_def by (rule andThen_InrE)
  have c1: "calls w1 = calls w @ [FileRead ''.tmp.token.enc'']"
    using rejecting_Inr [OF r1]
    by (auto simp: readFileSync_def logged_def split: option.splits)
  define w2 where
    "w2 = log_if (verbose e) (''Encrypted key base 64 encoded: '' @ base64 e enc) w1"
  have c2: "calls w2 = calls w1" by (simp add: w2_def calls_log_if)
  from f1 obtain u w3 where
    r3: "rejecting (clean w2) = (Inr u, w3)"
    and f3: "fst (andThen (rejecting (updateTravisYAML e (appName ns) (base64 e enc) w3))
                 (\<lambda>update w4.
                   (Inr (), (log_if (update = JTrue) successMessage w4)\<lparr>handlers := True\<rparr>)))
             = Inr ()"
    and s3: "snd (main_finish e ns w)
             = snd (andThen (rejecting (updateTravisYAML e (appName ns) (base64 e enc) w3))
                 (\<lambda>update w4.
                   (Inr (), (log_if (update = JTrue) successMessage w4)\<lparr>handlers := True\<rparr>)))"
    unfolding s1 w2_def by (rule andThen_InrE)
  from rejecting_Inr [OF r3] have "snd (clean w2) = w3" by simp
  with calls_clean [of w2] obtain cl where
    c3: "calls w3 = calls w2 @ cl" "list_all (\<lambda>c. step_of c = Cleanup) cl" "cl \<noteq> []"
    by auto
  from f3 obtain update w4 where
    r4: "rejecting (updateTravisYAML e (appName ns) (base64 e enc) w3) = (Inr update, w4)"
    and s4: "snd (main_finish e ns w)
               = (log_if (update = JTrue) successMessage w4)\<lparr>handlers := True\<rparr>"
    unfolding s3 by (rule andThen_InrE) simp
  from rejecting_Inr [OF r4]
  have u: "fst (updateTravisYAML e (appName ns) (base64 e enc) w3) = Inr update"
    "snd (updateTravisYAML e (appName ns) (base64 e enc) w3) = w4" by simp_all
  from calls_updateTravisYAML [OF u(1)] u(2) obtain upd where
    c4: "calls w4 = calls w3 @ upd" "list_all (\<lambda>c. step_of c = DocumentUpdate) upd" "upd \<noteq> []"
    by auto
  have "calls (snd (main_finish e ns w)) = calls w @ [FileRead ''.tmp.token.enc''] @ cl @ upd"
    by (simp add: s4 calls_log_if c4(1) c3(1) c2 c1)
  with c3 c4 show ?thesis by blast
qed


lemma calls_main:
  assumes "fst (main e w) = Inr ()"
  shows "\<exists>url k t cl upd.
           calls (snd (main e w))
             = calls w
               @ [GitGetRemotes, Spawn ''heroku'' [''auth:token''], HttpGet url,
                  FileWrite ''.tmp.key.pem'' k, FileWrite ''.tmp.token.txt'' t,
                  Spawn ''openssl''
                    [''rsautl'', ''-encrypt'', ''-pubin'', ''-inkey'', ''.tmp.key.pem'',
                     ''-in'', ''.tmp.token.txt'', ''-out'', ''.tmp.token.enc''],
                  FileRead ''.tmp.token.enc'']
               @ cl @ upd
          \<and> list_all (\<lambda>c. step_of c = Cleanup) cl \<and> cl \<noteq> []
          \<and> list_all (\<lambda>c. step_of c = DocumentUpdate) upd \<and> upd \<noteq> []"
proof -
  from assms obtain ns w1 where
    r1: "getNamesFromGit e w = (Inr ns, w1)"
    and f1: "fst (andThen (getOutputFromCommand e ''heroku'' [''auth:token''] w1)
               (\<lambda>herokuTokenOut w2.
                 andThen (fetch_key e (travisURL (fullName ns))
                            (log_if (verbose e)
                               (''Received Heroku token '' @ herokuToken herokuTokenOut) w2))
                   (\<lambda>key w4.
                     andThen (encryptHerokuToken e
                                (writeFileSync ''.tmp.token.txt'' (herokuToken herokuTokenOut)
                                   (writeFileSync ''.tmp.key.pem'' key
                                      (log_if (verbose e)
                                         (''Received Travis pubkey:'' @ [CHR 0x0A] @ '' '' @ key)
                                         w4))))
                       (\<lambda>_ w8. main_finish e ns w8)))) = Inr ()"
    and s1: "snd (main e w)
             = snd (andThen (getOutputFromCommand e ''heroku'' [''auth:token''] w1)
               (\<lambda>herokuTokenOut w2.
                 andThen (fetch_key e (travisURL (fullName ns))
                            (log_if (verbose e)
                               (''Received Heroku token '' @ herokuToken herokuTokenOut) w2))
                   (\<lambda>key w4.
                     andThen (encryptHerokuToken e
                                (writeFileSync ''.tmp.token.txt'' (herokuToken herokuTokenOut)
                                   (writeFileSync ''.tmp.key.pem'' key
                                      (log_if (verbose e)
                                         (''Received Travis pubkey:'' @ [CHR 0x0A] @ '' '' @ key)
                                         w4))))
                       (\<lambda>_ w8. main_finish e ns w8))))"
    unfolding main_def Let_def by (rule andThen_InrE)
  have c1: "calls w1 = calls w @ [GitGetRemotes]"
    using r1 by (rule calls_getNamesFromGit)
  from f1 obtain out w2 where
    r2: "getOutputFromCommand e ''heroku'' [''auth:token''] w1 = (Inr out, w2)"
    and f2: "fst (andThen (fetch_key e (travisURL (fullName ns))
                            (log_if (verbose e) (''Received Heroku token '' @ herokuToken out) w2))
                   (\<lambda>key w4.
                     andThen (encryptHerokuToken e
                                (writeFileSync ''.tmp.token.txt'' (herokuToken out)
                                   (writeFileSync ''.tmp.key.pem'' key
                                      (log_if (verbose e)
                                         (''Received Travis pubkey:'' @ [CHR 0x0A] @ '' '' @ key)
                                         w4))))
                       (\<lambda>_ w8. main_finish e ns w8))) = Inr ()"
    and s2: "snd (main e w)
             = snd (andThen (fetch_key e (travisURL (fullName ns))
                            (log_if (verbose e) (''Received Heroku token '' @ herokuToken out) w2))
                   (\<lambda>key w4.
                     andThen (encryptHerokuToken e
                                (writeFileSync ''.tmp.token.txt'' (herokuToken out)
                                   (writeFileSync ''.tmp.key.pem'' key
                                      (log_if (verbose e)
                                         (''Received Travis pubkey:'' @ [CHR 0x0A] @ '' '' @ key)
                                         w4))))
                       (\<lambda>_ w8. main_finish e ns w8)))"
    unfolding s1 by (rule andThen_InrE)
  have c2: "calls w2 = calls w1 @ [Spawn ''heroku'' [''auth:token'']]"
    using r2 by (rule calls_getOutputFromCommand)
  define w3 where "w3 = log_if (verbose e) (''Received Heroku token '' @ herokuToken out) w2"
  have c3: "calls w3 = calls w2" by (simp add: w3_def calls_log_if)
  from f2 obtain key w4 where
    r4: "fetch_key e (travisURL (fullName ns)) w3 = (Inr key, w4)"
    and f4: "fst (andThen (encryptHerokuToken e
                                (writeFileSync ''.tmp.token.txt'' (herokuToken out)
                                   (writeFileSync ''.tmp.key.pem'' key
                                      (log_if (verbose e)
                                         (''Received Travis pubkey:'' @ [CHR 0x0A] @ '' '' @ key)
                                         w4))))
                       (\<lambda>_ w8. main_finish e ns w8)) = Inr ()"
    and s4: "snd (main e w)
             = snd (andThen (encryptHerokuToken e
                                (writeFileSync ''.tmp.token.txt'' (herokuToken out)
                                   (writeFileSync ''.tmp.key.pem'' key
                                      (log_if (verbose e)
                                         (''Received Travis pubkey:'' @ [CHR 0x0A] @ '' '' @ key)
                                         w4))))
                       (\<lambda>_ w8. main_finish e ns w8))"
    unfolding s2 w3_def by (rule andThen_InrE)
  have c4: "calls w4 = calls w3 @ [HttpGet (travisURL (fullName ns))]"
    using r4 by (rule calls_fetch_key)
  define w7 where
    "w7 = writeFileSync ''.tmp.token.txt'' (herokuToken out)
            (writeFileSync ''.tmp.key.pem'' key
               (log_if (verbose e) (''Received Travis pubkey:'' @ [CHR 0x0A] @ '' '' @ key) w4))"
  have c7: "calls w7 = calls w4 @ [FileWrite ''.tmp.key.pem'' key,
                                   FileWrite ''.tmp.token.txt'' (herokuToken out)]"
    by (simp add: w7_def calls_writeFileSync calls_log_if)
  from f4 obtain u w8 where
    r8: "encryptHerokuToken e w7 = (Inr u, w8)"
    and f8: "fst (main_finish e ns w8) = Inr ()"
    and s8: "snd (main e w) = snd (main_finish e ns w8)"
    unfolding s4 w7_def by (rule andThen_InrE)
  have c8: "calls w8 = calls w7 @ [Spawn ''openssl''
          [''rsautl'', ''-encrypt'', ''-pubin'', ''-inkey'', ''.tmp.key.pem'',
           ''-in'', ''.tmp.token.txt'', ''-out'', ''.tmp.token.enc'']]"
    using r8 by (rule calls_encryptHerokuToken)
  from calls_main_finish [OF f8] obtain cl upd where
    c9: "calls (snd (main_finish e ns w8)) = calls w8 @ [FileRead ''.tmp.token.enc''] @ cl @ upd"
    and cl: "list_all (\<lambda>c. step_of c = Cleanup) cl" "cl \<noteq> []"
    and upd: "list_all (\<lambda>c. step_of c = DocumentUpdate) upd" "upd \<noteq> []"
    by blast
  have "calls (snd (main e w))
             = calls w
               @ [GitGetRemotes, Spawn ''heroku'' [''auth:token''],
                  HttpGet (travisURL (fullName ns)),
                  FileWrite ''.tmp.key.pem'' key, FileWrite ''.tmp.token.txt'' (herokuToken out),
                  Spawn ''openssl''
                    [''rsautl'', ''-encrypt'', ''-pubin'', ''-inkey'', ''.tmp.key.pem'',
                     ''-in'', ''.tmp.token.txt'', ''-out'', ''.tmp.token.enc''],
                  FileRead ''.tmp.token.enc'']
               @ cl @ upd"
    by (simp add: s8 c9 c8 c7 c4 c3 c2 c1)
  with cl upd show ?thesis by blast
qed

lemma steps_of_block:
  "list_all (\<lambda>c. step_of c = s) cs \<Longrightarrow> cs \<noteq> [] \<Longrightarrow> steps_of cs = [s]"
proof (induction cs rule: steps_of.induct)
  case 1
  then show ?case by simp
next
  case (2 c)
  then show ?case by simp
next
  case (3 c d cs)
  then show ?case by simp
qed

lemma steps_of_append:
  "xs \<noteq> [] \<Longrightarrow> ys \<noteq> [] \<Longrightarrow> step_of (last xs) \<noteq> step_of (hd ys) \<Longrightarrow>
   steps_of (xs @ ys) = steps_of xs @ steps_of ys"
proof (induction xs rule: steps_of.induct)
  case 1
  then show ?case by simp
next
  case (2 c)
  then show ?case by (cases ys) simp_all
next
  case (3 c d cs)
  then show ?case by simp
qed

lemma list_all_hd_last:
  "list_all P xs \<Longrightarrow> xs \<noteq> [] \<Longrightarrow> P (hd xs) \<and> P (last xs)"
  by (cases xs) (auto simp: list_all_iff)

section \<open>Runs that differ in the arguments of the process only\<close>

lemma sim_refl: "sim w w"
  by (simp add: sim_def)

lemma sim_log_if: "sim w w' \<Longrightarrow> sim (log_if b msg w) (log_if b' msg' w')"
  by (simp add: sim_def log_if_def console_log_def)

lemma sim_console_log_left: "sim w w' \<Longrightarrow> sim (console_log msg w) (console_log msg w')"
  by (simp add: sim_def console_log_def)

lemma agree_andThen:
  assumes "agree m m'"
    and "\<And>x w w'. sim w w' \<Longrightarrow> agree (k x w) (k' x w')"
  shows "agree (andThen m k) (andThen m' k')"
proof (cases m; cases m')
  fix r w r' w'
  assume m: "m = (r, w)" "m' = (r', w')"
  with assms(1) have rr: "r' = r" "sim w w'" by (simp_all add: agree_def)
  show ?thesis
  proof (cases r)
    case (Inl f)
    with m rr show ?thesis by (simp add: andThen_def agree_def)
  next
    case (Inr x)
    with m rr assms(2) [of w w' x] show ?thesis by (simp add: andThen_def)
  qed
qed

lemma agree_rejecting: "agree m m' \<Longrightarrow> agree (rejecting m) (rejecting m')"
  by (cases m; cases m'; cases "fst m") (auto simp: agree_def rejecting_def)

lemma agree_getRemoteURL:
  "sim w w' \<Longrightarrow> agree (getRemoteURL nm remotes w) (getRemoteURL nm remotes w')"
  by (simp add: getRemoteURL_def agree_def sim_console_log_left split: list.splits)

lemma agree_pairE:
  assumes "agree m m'"
  obtains r w w' where "m = (r, w)" "m' = (r, w')" "sim w w'"
  using assms by (cases m; cases m') (auto simp: agree_def)

lemma agree_getNamesFromGit:
  assumes "sim w w'"
  shows "agree (getNamesFromGit (e\<lparr>argv := a\<rparr>) w) (getNamesFromGit (e\<lparr>argv := b\<rparr>) w')"
proof (cases "getRemotes e")
  case (Inl err)
  with assms show ?thesis
    by (simp add: getNamesFromGit_def agree_def sim_def logged_def)
next
  case (Inr res)
  have s0: "sim (logged GitGetRemotes w) (logged GitGetRemotes w')"
    using assms by (simp add: sim_def logged_def)
  from agree_getRemoteURL [OF s0, of "''origin''" res] obtain u1 w1 w1' where
    o: "getRemoteURL ''origin'' res (logged GitGetRemotes w) = (u1, w1)"
       "getRemoteURL ''origin'' res (logged GitGetRemotes w') = (u1, w1')" "sim w1 w1'"
    by (rule agree_pairE)
  from agree_getRemoteURL [OF o(3), of "''heroku''" res] obtain u2 w2 w2' where
    h: "getRemoteURL ''heroku'' res w1 = (u2, w2)"
       "getRemoteURL ''heroku'' res w1' = (u2, w2')" "sim w2 w2'"
    by (rule agree_pairE)
  show ?thesis
    using Inr o h by (simp add: getNamesFromGit_def agree_def Let_def split: sum.splits)
qed

lemma agree_getOutputFromCommand:
  "sim w w' \<Longrightarrow>
   agree (getOutputFromCommand (e\<lparr>argv := a\<rparr>) command args w)
         (getOutputFromCommand (e\<lparr>argv := b\<rparr>) command args w')"
  by (auto simp: getOutputFromCommand_def agree_def sim_def logged_def Let_def
           split: prod.splits option.splits promise.splits)

lemma agree_encryptHerokuToken:
  "sim w w' \<Longrightarrow>
   agree (encryptHerokuToken (e\<lparr>argv := a\<rparr>) w) (encryptHerokuToken (e\<lparr>argv := b\<rparr>) w')"
  unfolding encryptHerokuToken_def
  by (intro agree_andThen agree_getOutputFromCommand) (simp_all add: agree_def)

lemma agree_fetch_key:
  "sim w w' \<Longrightarrow> agree (fetch_key (e\<lparr>argv := a\<rparr>) url w) (fetch_key (e\<lparr>argv := b\<rparr>) url w')"
  by (simp add: fetch_key_def agree_def sim_def logged_def Let_def
           split: sum.splits option.splits)

lemma sim_writeFileSync: "sim w w' \<Longrightarrow> sim (writeFileSync p s w) (writeFileSync p s w')"
  by (simp add: sim_def writeFileSync_def logged_def)

lemma agree_readFileSync: "sim w w' \<Longrightarrow> agree (readFileSync p w) (readFileSync p w')"
  by (simp add: agree_def sim_def readFileSync_def logged_def split: option.splits)

lemma agree_clean_forEach:
  "sim w w' \<Longrightarrow> agree (clean_forEach ps w) (clean_forEach ps w')"
proof (induction ps arbitrary: w w')
  case Nil
  then show ?case by (simp add: agree_def)
next
  case (Cons f rest)
  from Cons.prems have ff: "files w' = files w" by (simp add: sim_def)
  show ?case
  proof (cases "files w f = None")
    case True
    have "sim (logged (FileExists f) w) (logged (FileExists f) w')"
      using Cons.prems by (simp add: sim_def logged_def)
    from Cons.IH [OF this] True ff show ?thesis
      by (simp add: clean_forEach_Cons del: clean_forEach.simps(2))
  next
    case False
    have "sim (logged (FileUnlink f) ((logged (FileExists f) w)\<lparr>files := (files w)(f := None)\<rparr>))
              (logged (FileUnlink f) ((logged (FileExists f) w')\<lparr>files := (files w')(f := None)\<rparr>))"
      using Cons.prems by (simp add: sim_def logged_def)
    from Cons.IH [OF this] False ff show ?thesis
      by (auto simp add: clean_forEach_Cons simp del: clean_forEach.simps(2))
  qed
qed

lemma agree_clean: "sim w w' \<Longrightarrow> agree (clean w) (clean w')"
  by (simp add: clean_def agree_clean_forEach)

lemma agree_updateTravisYAML:
  "sim w w' \<Longrightarrow>
   agree (updateTravisYAML (e\<lparr>argv := a\<rparr>) app key w)
         (updateTravisYAML (e\<lparr>argv := b\<rparr>) app key w')"
  by (auto simp: updateTravisYAML_def doc_toString_def readFileSync_def writeFileSync_def
                 logged_def console_log_def agree_def sim_def Let_def
           split: option.splits sum.splits)

lemma agree_main_finish:
  "sim w w' \<Longrightarrow> agree (main_finish (e\<lparr>argv := a\<rparr>) ns w) (main_finish (e\<lparr>argv := b\<rparr>) ns w')"
proof -
  have last: "\<And>update w4 w4'. sim w4 w4' \<Longrightarrow>
      agree (Inr (), (log_if (update = JTrue) successMessage w4)\<lparr>handlers := True\<rparr>)
            (Inr (), (log_if (update = JTrue) successMessage w4')\<lparr>handlers := True\<rparr>)"
    by (simp add: agree_def sim_def log_if_def console_log_def)
  assume "sim w w'"
  then show ?thesis
    apply (simp add: main_finish_def Let_def)
    apply (intro agree_andThen agree_rejecting agree_readFileSync agree_clean
                 agree_updateTravisYAML sim_log_if last)
       apply assumption+
    done
qed

lemma agree_main:
  "sim w w' \<Longrightarrow> agree (main (e\<lparr>argv := a\<rparr>) w) (main (e\<lparr>argv := b\<rparr>) w')"
  unfolding main_def Let_def
  by (intro agree_andThen agree_getNamesFromGit agree_getOutputFromCommand agree_fetch_key
            agree_encryptHerokuToken agree_main_finish sim_writeFileSync sim_log_if)
     assumption+

lemma agree_on_failure:
  assumes "sim w w'"
  shows "agree (on_failure (e\<lparr>argv := a\<rparr>) f w) (on_failure (e\<lparr>argv := b\<rparr>) f w')"
proof (cases "handlers w")
  case True
  with assms have h: "handlers w'" by (simp add: sim_def)
  from agree_clean [OF assms] obtain r w1 w1' where
    c: "clean w = (r, w1)" "clean w' = (r, w1')" "sim w1 w1'"
    by (rule agree_pairE)
  show ?thesis
    using True h c sim_log_if [OF c(3)]
    by (simp add: on_failure_def agree_def split: sum.splits)
next
  case False
  with assms have h: "\<not> handlers w'" by (simp add: sim_def)
  show ?thesis
    using False h assms by (simp add: on_failure_def agree_def split: failure.splits)
qed

lemma agree_run: "agree (run (e\<lparr>argv := a\<rparr>) w) (run (e\<lparr>argv := b\<rparr>) w)"
proof -
  from agree_main [OF sim_refl, where e = e and a = a and b = b and w = w] obtain r w1 w1' where
    m: "main (e\<lparr>argv := a\<rparr>) w = (r, w1)" "main (e\<lparr>argv := b\<rparr>) w = (r, w1')" "sim w1 w1'"
    by (rule agree_pairE)
  show ?thesis
  proof (cases r)
    case (Inl f)
    with m agree_on_failure [OF m(3), where e = e and a = a and b = b and f = f] show ?thesis by (simp add: run_def)
  next
    case (Inr u)
    with m show ?thesis by (simp add: run_def agree_def)
  qed
qed

section \<open>Unfolding the example runs\<close>

lemmas run_defs =
  run_def main_def main_finish_def on_failure_def andThen_def rejecting_def
  getNamesFromGit_def getRemoteURL_def getOutputFromCommand_def on_close_def
  encryptHerokuToken_def fetch_key_def travisURL_def template_def log_if_def verbose_def
  herokuToken_butlast
  clean_def externalFiles_def existsSync_def unlinkSync_def readFileSync_def writeFileSync_def
  logged_def console_log_def
  updateTravisYAML_def update_document_def doc_has_def doc_set_def comment_document_def
  comment_item_def comment_children_def in_memory_def deploy_node_def
  key_in_def key_lookup_def Object_prototype_names_def doc_toString_def string_comments_def

lemmas demo_defs =
  demo_env_def demo_world_def demo_remotes_def demo_GitUrlParse_def demo_spawn_def
  failing_openssl_def demo_parse_def demo_stringify_def

section \<open>The claims\<close>

subsection \<open>C1: a failure in steps 2 to 5\<close>

text \<open>
  Claim C1 says that a run in which an error is thrown during the credential fetch, the
  public-key fetch, the encryption or the document update exits with code 1 and leaves none
  of the three temporary files. The listeners that clean up are installed by the last
  statements of \<^verbatim>\<open>main\<close>, after all these steps, so no failure of these steps reaches them.
  In the example run below openssl exits with code 1: the process exits with code 1, the
  listeners are not installed, and \<^verbatim>\<open>.tmp.key.pem\<close> and \<^verbatim>\<open>.tmp.token.txt\<close> are still
  there, the latter with the plain token.
\<close>

theorem openssl_failure_leaves_temp_files:
  "fst (run (demo_env\<lparr>spawn := failing_openssl\<rparr>) demo_world) = 1
   \<and> handlers (snd (run (demo_env\<lparr>spawn := failing_openssl\<rparr>) demo_world)) = False
   \<and> files (snd (run (demo_env\<lparr>spawn := failing_openssl\<rparr>) demo_world)) ''.tmp.key.pem''
       = Some ''PEM''
   \<and> files (snd (run (demo_env\<lparr>spawn := failing_openssl\<rparr>) demo_world)) ''.tmp.token.txt''
       = Some ''secret''"
  by (simp add: run_defs demo_defs Let_def)

subsection \<open>C2: the update of a document without \<^verbatim>\<open>before_deploy\<close>\<close>

text \<open>
  Claim C2, amended. Take a \<^verbatim>\<open>.travis.yml\<close> that is parsed without errors into a mapping
  (with scalar keys and without aliases, as all documents here) that has no key
  \<^verbatim>\<open>before_deploy\<close> and no key named like a property that \<^verbatim>\<open>keyComments\<close> only inherits from
  \<^verbatim>\<open>Object.prototype\<close>. Then for every app name and ciphertext,
  \<^verbatim>\<open>updateTravisYAML\<close> returns \<^verbatim>\<open>true\<close> and writes to \<^verbatim>\<open>.travis.yml\<close> the text of a document in
  which \<^verbatim>\<open>before_deploy\<close> is \<^verbatim>\<open>["rm -rf node_modules"]\<close> and \<^verbatim>\<open>deploy\<close> is the mapping of
  \<^verbatim>\<open>skip_cleanup: true\<close>, \<^verbatim>\<open>provider: "heroku"\<close>, the app name and
  \<^verbatim>\<open>api_key: {secure: ciphertext}\<close>.
\<close>

theorem updateTravisYAML_mapping:
  "files w ''.travis.yml'' = Some travis \<Longrightarrow>
   contents (parseDocument e travis) = Some (YMap items) \<Longrightarrow>
   errors (parseDocument e travis) = [] \<Longrightarrow>
   \<not> doc_has ''before_deploy'' (in_memory (parseDocument e travis)) \<Longrightarrow>
   \<not> list_ex (\<lambda>p. inherited (keyComments e) (pair_key p)) items \<Longrightarrow>
   \<exists>doc. updateTravisYAML e (Some app) key w
           = (Inr JTrue,
              writeFileSync ''.travis.yml'' (stringify e doc) (logged (FileRead ''.travis.yml'') w))
       \<and> map_option toJS (doc_get ''before_deploy'' doc)
           = Some (JList [JStr ''rm -rf node_modules''])
       \<and> map_option toJS (doc_get ''deploy'' doc)
           = Some (JObj [(''skip_cleanup'', JBool True), (''provider'', JStr ''heroku''),
                         (''app'', JStr app), (''api_key'', JObj [(''secure'', JStr key)])])"
proof -
  assume f: "files w ''.travis.yml'' = Some travis"
    and c: "contents (parseDocument e travis) = Some (YMap items)"
    and er: "errors (parseDocument e travis) = []"
    and h: "\<not> doc_has ''before_deploy'' (in_memory (parseDocument e travis))"
    and ni: "\<not> list_ex (\<lambda>p. inherited (keyComments e) (pair_key p)) items"
  let ?doc = "in_memory (parseDocument e travis)"
  have c': "contents ?doc = Some (YMap (map (map_ypair ScalarKey of_comment) items))"
    using c by (simp add: in_memory_def)
  have er': "errors ?doc = []" using er by (simp add: in_memory_def)
  from update_document_mapping [OF c' parsed_commentable [OF ni], of "Some app" key]
  obtain doc' where d: "update_document (keyComments e) (Some app) key ?doc = Inr doc'"
    "errors doc' = errors ?doc" "string_comments doc'"
    "map_option toJS (doc_get ''before_deploy'' doc') = Some (JList [JStr ''rm -rf node_modules''])"
    "map_option toJS (doc_get ''deploy'' doc') = Some (toJS (deploy_node (Some app) key))"
    by blast
  have ts: "doc_toString e doc' = Inr (stringify e doc')"
    using d(2,3) er' by (simp add: doc_toString_def)
  have "updateTravisYAML e (Some app) key w
          = (Inr JTrue,
             writeFileSync ''.travis.yml'' (stringify e doc') (logged (FileRead ''.travis.yml'') w))"
    using f h d(1) ts by (simp add: updateTravisYAML_def readFileSync_def)
  then show ?thesis using d(4,5) by (auto simp only: toJS_deploy_node)
qed

theorem updateTravisYAML_mapping_witness:
  "files demo_world ''.travis.yml'' = Some ''language: node_js''
   \<and> contents (parseDocument demo_env ''language: node_js'')
       = Some (YMap [YPair ''language'' (YStr ''node_js'') None None])
   \<and> errors (parseDocument demo_env ''language: node_js'') = []
   \<and> \<not> doc_has ''before_deploy'' (in_memory (parseDocument demo_env ''language: node_js''))
   \<and> \<not> list_ex (\<lambda>p. inherited (keyComments demo_env) (pair_key p))
          [YPair ''language'' (YStr ''node_js'') None None]
   \<and> (\<exists>doc. updateTravisYAML demo_env (Some ''pair-app'') ''Y2lwaGVy'' demo_world
           = (Inr JTrue,
              writeFileSync ''.travis.yml'' (stringify demo_env doc)
                (logged (FileRead ''.travis.yml'') demo_world))
       \<and> map_option toJS (doc_get ''before_deploy'' doc)
           = Some (JList [JStr ''rm -rf node_modules''])
       \<and> map_option toJS (doc_get ''deploy'' doc)
           = Some (JObj [(''skip_cleanup'', JBool True), (''provider'', JStr ''heroku''),
                         (''app'', JStr ''pair-app''),
                         (''api_key'', JObj [(''secure'', JStr ''Y2lwaGVy'')])]))"
proof -
  have h1: "files demo_world ''.travis.yml'' = Some ''language: node_js''"
    by (simp add: demo_world_def)
  have h2: "contents (parseDocument demo_env ''language: node_js'')
              = Some (YMap [YPair ''language'' (YStr ''node_js'') None None])"
    by (simp add: demo_env_def demo_parse_def)
  have h3: "errors (parseDocument demo_env ''language: node_js'') = []"
    by (simp add: demo_env_def demo_parse_def)
  have h4: "\<not> doc_has ''before_deploy'' (in_memory (parseDocument demo_env ''language: node_js''))"
    by (simp add: demo_env_def demo_parse_def in_memory_def doc_has_def)
  have h5: "\<not> list_ex (\<lambda>p. inherited (keyComments demo_env) (pair_key p))
              [YPair ''language'' (YStr ''node_js'') None None]"
    by (simp add: demo_env_def inherited_def key_lookup_def Object_prototype_names_def)
  show ?thesis
    using h1 h2 h3 h4 h5
      updateTravisYAML_mapping [OF h1 h2 h3 h4 h5, of "''pair-app''" "''Y2lwaGVy''"]
    by blast
qed

text \<open>
  The claim as stated fails on three files without the key \<^verbatim>\<open>before_deploy\<close>; in each case
  the function throws, returns nothing and writes nothing. A file that holds the plain
  scalar \<^verbatim>\<open>hello\<close> is no mapping, and \<^verbatim>\<open>doc.set\<close> throws. A mapping with the key
  \<^verbatim>\<open>constructor\<close> gets the function \<^verbatim>\<open>keyComments["constructor"]\<close> as the comment of that
  pair, and \<^verbatim>\<open>doc.toString\<close> throws. A mapping that repeats a key is parsed with an error,
  and \<^verbatim>\<open>doc.toString\<close> throws.
\<close>

theorem unwritable_documents_counterexample:
  "\<not> doc_has ''before_deploy'' (in_memory (parseDocument demo_env ''hello''))
   \<and> updateTravisYAML demo_env (Some ''pair-app'') ''Y2lwaGVy''
        (demo_world\<lparr>files := [''.travis.yml'' \<mapsto> ''hello'']\<rparr>)
       = (Inl (Error ''Expected a YAML collection as document contents''),
          logged (FileRead ''.travis.yml'') (demo_world\<lparr>files := [''.travis.yml'' \<mapsto> ''hello'']\<rparr>))
   \<and> \<not> doc_has ''before_deploy'' (in_memory (parseDocument demo_env ''constructor: x''))
   \<and> updateTravisYAML demo_env (Some ''pair-app'') ''Y2lwaGVy''
        (demo_world\<lparr>files := [''.travis.yml'' \<mapsto> ''constructor: x'']\<rparr>)
       = (Inl (TypeError ''comment.indexOf is not a function''),
          logged (FileRead ''.travis.yml'')
            (demo_world\<lparr>files := [''.travis.yml'' \<mapsto> ''constructor: x'']\<rparr>))
   \<and> \<not> doc_has ''before_deploy''
          (in_memory (parseDocument demo_env (''os: linux'' @ [CHR 0x0A] @ ''os: osx'')))
   \<and> updateTravisYAML demo_env (Some ''pair-app'') ''Y2lwaGVy''
        (demo_world\<lparr>files := [''.travis.yml'' \<mapsto> ''os: linux'' @ [CHR 0x0A] @ ''os: osx'']\<rparr>)
       = (Inl (Error ''Document with errors cannot be stringified''),
          logged (FileRead ''.travis.yml'')
            (demo_world\<lparr>files := [''.travis.yml'' \<mapsto> ''os: linux'' @ [CHR 0x0A] @ ''os: osx'']\<rparr>))"
  by (simp add: run_defs demo_defs Let_def)

subsection \<open>C3: the update of a document with \<^verbatim>\<open>before_deploy\<close>\<close>

text \<open>
  Claim C3. When the document of \<^verbatim>\<open>.travis.yml\<close> has the key \<^verbatim>\<open>before_deploy\<close>,
  \<^verbatim>\<open>updateTravisYAML\<close> reads the file, logs the message with \<^verbatim>\<open>console.log\<close> and returns
  \<^verbatim>\<open>undefined\<close>: it writes nothing, throws nothing, and every file holds what it held. A
  second call does the same, so two calls leave the files as one call does.
\<close>

theorem updateTravisYAML_idempotent:
  "files w ''.travis.yml'' = Some travis \<Longrightarrow>
   doc_has ''before_deploy'' (in_memory (parseDocument e travis)) \<Longrightarrow>
     updateTravisYAML e app key w
       = (Inr JUndefined, console_log idempotenceMessage (logged (FileRead ''.travis.yml'') w))
   \<and> files (snd (updateTravisYAML e app key w)) = files w
   \<and> fst (updateTravisYAML e app key (snd (updateTravisYAML e app key w))) = Inr JUndefined
   \<and> files (snd (updateTravisYAML e app key (snd (updateTravisYAML e app key w)))) = files w"
proof -
  assume f: "files w ''.travis.yml'' = Some travis"
    and h: "doc_has ''before_deploy'' (in_memory (parseDocument e travis))"
  let ?w1 = "console_log idempotenceMessage (logged (FileRead ''.travis.yml'') w)"
  have 1: "updateTravisYAML e app key w = (Inr JUndefined, ?w1)"
    using f h by (rule updateTravisYAML_guard)
  have f1: "files ?w1 = files w" by (simp add: console_log_def logged_def)
  have 2: "updateTravisYAML e app key ?w1
             = (Inr JUndefined, console_log idempotenceMessage (logged (FileRead ''.travis.yml'') ?w1))"
    using f h f1 by (intro updateTravisYAML_guard) simp_all
  show ?thesis using 1 2 f1 by (simp add: console_log_def logged_def)
qed

theorem updateTravisYAML_idempotent_witness:
  "files (demo_world\<lparr>files := [''.travis.yml'' \<mapsto> ''before_deploy: []'']\<rparr>) ''.travis.yml''
     = Some ''before_deploy: []''
   \<and> doc_has ''before_deploy'' (in_memory (parseDocument demo_env ''before_deploy: []''))
   \<and> fst (updateTravisYAML demo_env (Some ''pair-app'') ''Y2lwaGVy''
            (demo_world\<lparr>files := [''.travis.yml'' \<mapsto> ''before_deploy: []'']\<rparr>)) = Inr JUndefined
   \<and> files (snd (updateTravisYAML demo_env (Some ''pair-app'') ''Y2lwaGVy''
            (demo_world\<lparr>files := [''.travis.yml'' \<mapsto> ''before_deploy: []'']\<rparr>))) ''.travis.yml''
       = Some ''before_deploy: []''"
proof -
  have h1: "files (demo_world\<lparr>files := [''.travis.yml'' \<mapsto> ''before_deploy: []'']\<rparr>)
              ''.travis.yml'' = Some ''before_deploy: []''"
    by simp
  have h2: "doc_has ''before_deploy'' (in_memory (parseDocument demo_env ''before_deploy: []''))"
    by (simp add: demo_env_def demo_parse_def in_memory_def doc_has_def)
  show ?thesis
    using h1 h2 updateTravisYAML_idempotent [OF h1 h2, of "Some ''pair-app''" "''Y2lwaGVy''"]
    by (simp add: console_log_def logged_def)
qed

subsection \<open>C4: \<^verbatim>\<open>clean\<close> removes the temporary files\<close>

text \<open>
  Claim C4. From every state of the file system, \<^verbatim>\<open>clean\<close> returns without throwing,
  whether the temporary files are there or not; afterwards none of \<^verbatim>\<open>.tmp.key.pem\<close>,
  \<^verbatim>\<open>.tmp.token.txt\<close> and \<^verbatim>\<open>.tmp.token.enc\<close> exists; and a second call returns again
  and leaves the files as the first call left them.
\<close>

theorem clean_removes_temp_files_idempotent:
  "fst (clean w) = Inr ()
   \<and> files (snd (clean w)) ''.tmp.key.pem'' = None
   \<and> files (snd (clean w)) ''.tmp.token.txt'' = None
   \<and> files (snd (clean w)) ''.tmp.token.enc'' = None
   \<and> fst (clean (snd (clean w))) = Inr ()
   \<and> files (snd (clean (snd (clean w)))) = files (snd (clean w))"
  by (simp add: clean_returns clean_files externalFiles_def fun_eq_iff)

subsection \<open>C5: the order of the steps\<close>

text \<open>
  Claim C5, amended. In every run in which \<^verbatim>\<open>main\<close> completes, the steps run in this
  order: resolution of the remotes, credential fetch, public-key fetch, encryption, cleanup
  of the temporary files, and the document update last.
\<close>

theorem successful_run_order:
  "fst (main e w) = Inr () \<Longrightarrow>
   steps_of (drop (length (calls w)) (calls (snd (main e w))))
     = [RemoteResolution, CredentialFetch, PublicKeyFetch, Encryption, Cleanup, DocumentUpdate]"
proof -
  assume "fst (main e w) = Inr ()"
  from calls_main [OF this] obtain url k t cl upd where
    c0: "calls (snd (main e w))
             = calls w
               @ [GitGetRemotes, Spawn ''heroku'' [''auth:token''], HttpGet url,
                  FileWrite ''.tmp.key.pem'' k, FileWrite ''.tmp.token.txt'' t,
                  Spawn ''openssl''
                    [''rsautl'', ''-encrypt'', ''-pubin'', ''-inkey'', ''.tmp.key.pem'',
                     ''-in'', ''.tmp.token.txt'', ''-out'', ''.tmp.token.enc''],
                  FileRead ''.tmp.token.enc'']
               @ cl @ upd"
    and cl: "list_all (\<lambda>c. step_of c = Cleanup) cl" "cl \<noteq> []"
    and upd: "list_all (\<lambda>c. step_of c = DocumentUpdate) upd" "upd \<noteq> []"
    by blast
  define pre where
    "pre = [GitGetRemotes, Spawn ''heroku'' [''auth:token''], HttpGet url,
            FileWrite ''.tmp.key.pem'' k, FileWrite ''.tmp.token.txt'' t,
            Spawn ''openssl''
              [''rsautl'', ''-encrypt'', ''-pubin'', ''-inkey'', ''.tmp.key.pem'',
               ''-in'', ''.tmp.token.txt'', ''-out'', ''.tmp.token.enc''],
            FileRead ''.tmp.token.enc'']"
  have c: "calls (snd (main e w)) = calls w @ pre @ cl @ upd"
    using c0 by (simp add: pre_def)
  have pre: "steps_of pre = [RemoteResolution, CredentialFetch, PublicKeyFetch, Encryption]"
      "pre \<noteq> []" "step_of (last pre) = Encryption"
    by (simp_all add: pre_def)
  have a: "steps_of cl = [Cleanup]" "steps_of upd = [DocumentUpdate]"
    using cl upd by (simp_all add: steps_of_block)
  have b: "step_of (hd cl) = Cleanup" "step_of (last cl) = Cleanup"
    "step_of (hd upd) = DocumentUpdate"
    using list_all_hd_last [OF cl] list_all_hd_last [OF upd] by simp_all
  have "steps_of (cl @ upd) = [Cleanup, DocumentUpdate]"
    using steps_of_append [of cl upd] cl(2) upd(2) a b by simp
  moreover have "step_of (hd (cl @ upd)) = Cleanup" using cl(2) b by simp
  ultimately have "steps_of (pre @ cl @ upd)
      = [RemoteResolution, CredentialFetch, PublicKeyFetch, Encryption, Cleanup, DocumentUpdate]"
    using steps_of_append [of pre "cl @ upd"] pre cl(2) by simp
  then show ?thesis by (simp add: c)
qed

theorem successful_run_order_witness:
  "fst (main demo_env demo_world) = Inr ()
   \<and> steps_of (drop (length (calls demo_world)) (calls (snd (main demo_env demo_world))))
       = [RemoteResolution, CredentialFetch, PublicKeyFetch, Encryption, Cleanup, DocumentUpdate]"
proof -
  have h: "fst (main demo_env demo_world) = Inr ()"
    by (simp add: run_defs demo_defs Let_def)
  show ?thesis using h successful_run_order [OF h] by simp
qed

text \<open>
  The claim as stated puts the cleanup after the document update. In the example run, which
  completes, the last call is the write of \<^verbatim>\<open>.travis.yml\<close>, the call before it is the read
  of that file, and the call before that one removes the last temporary file.
\<close>

theorem cleanup_before_update_counterexample:
  "fst (main demo_env demo_world) = Inr ()
   \<and> steps_of (calls (snd (main demo_env demo_world)))
       \<noteq> [RemoteResolution, CredentialFetch, PublicKeyFetch, Encryption, DocumentUpdate, Cleanup]
   \<and> drop 12 (calls (snd (main demo_env demo_world)))
       = [FileUnlink ''.tmp.token.enc'', FileRead ''.travis.yml'',
          FileWrite ''.travis.yml'' ''language;before_deploy;deploy;'']"
  by (simp add: run_defs demo_defs Let_def)

subsection \<open>C6: the token\<close>

text \<open>
  Claim C6, amended. For an output of the heroku command that arrives in one chunk, the
  token (\<^verbatim>\<open>herokuToken\<close>, which \<^verbatim>\<open>main\<close> writes to \<^verbatim>\<open>.tmp.token.txt\<close>) is the output
  without its last character, whatever that character is; for an output that ends with a
  newline it is the output without that newline.
\<close>

theorem herokuToken_drops_last_character:
  "herokuToken [s] = butlast s \<and> herokuToken [t @ [CHR 0x0A]] = t"
  by (simp add: herokuToken_butlast)

text \<open>
  The claim as stated has an output without a trailing newline used unchanged; it loses its
  last character.
\<close>

theorem herokuToken_counterexample:
  "herokuToken [''abc''] = ''ab'' \<and> herokuToken [''abc''] \<noteq> ''abc''"
  by (simp add: herokuToken_butlast)

subsection \<open>C7: the exit code of a command\<close>

text \<open>
  Claim C7. \<^verbatim>\<open>getOutputFromCommand\<close> runs the command once. With exit code 0 the promise
  is resolved with the captured standard output. With any other exit code the listener of
  \<^verbatim>\<open>close\<close> rejects the promise with the captured standard error and throws, which is a
  failure of the run.
\<close>

theorem getOutputFromCommand_exit_code:
  "spawn e command args (files w) = (process, fs) \<Longrightarrow>
     (exit_code process = Some 0 \<longrightarrow>
        fst (getOutputFromCommand e command args w) = Inr (stdout process))
   \<and> (exit_code process = Some (Suc c) \<longrightarrow>
        on_close (exit_code process) (stdout process) (stderr process)
          = (Rejected (Chunks (stderr process)), Some (Error []))
        \<and> fst (getOutputFromCommand e command args w) = Inl (UncaughtException (Error [])))
   \<and> calls (snd (getOutputFromCommand e command args w)) = calls w @ [Spawn command args]"
  by (auto simp: getOutputFromCommand_def on_close_def logged_def Let_def)

theorem getOutputFromCommand_exit_code_witness:
  "spawn demo_env ''heroku'' [''auth:token''] (files demo_world)
     = (\<lparr>exit_code = Some 0, stdout = [''secret'' @ [CHR 0x0A]], stderr = []\<rparr>, files demo_world)
   \<and> fst (getOutputFromCommand demo_env ''heroku'' [''auth:token''] demo_world)
       = Inr [''secret'' @ [CHR 0x0A]]
   \<and> spawn (demo_env\<lparr>spawn := failing_openssl\<rparr>) ''openssl'' [] (files demo_world)
       = (\<lparr>exit_code = Some (Suc 0), stdout = [], stderr = [''unable to load Public Key'']\<rparr>,
          files demo_world)
   \<and> fst (getOutputFromCommand (demo_env\<lparr>spawn := failing_openssl\<rparr>) ''openssl'' [] demo_world)
       = Inl (UncaughtException (Error []))"
proof -
  have h1: "spawn demo_env ''heroku'' [''auth:token''] (files demo_world)
     = (\<lparr>exit_code = Some 0, stdout = [''secret'' @ [CHR 0x0A]], stderr = []\<rparr>, files demo_world)"
    by (simp add: demo_env_def demo_spawn_def)
  have h2: "spawn (demo_env\<lparr>spawn := failing_openssl\<rparr>) ''openssl'' [] (files demo_world)
       = (\<lparr>exit_code = Some (Suc 0), stdout = [], stderr = [''unable to load Public Key'']\<rparr>,
          files demo_world)"
    by (simp add: demo_env_def failing_openssl_def)
  show ?thesis
    using h1 h2 getOutputFromCommand_exit_code [OF h1, of 0]
      getOutputFromCommand_exit_code [OF h2, of 0]
    by simp
qed

subsection \<open>C8: a remote that is missing\<close>

text \<open>
  Claim C8, amended. When the remote list has no remote of the name asked for
  (\<^verbatim>\<open>origin\<close> or \<^verbatim>\<open>heroku\<close>), \<^verbatim>\<open>getRemoteURL\<close> logs a diagnostic and returns \<^verbatim>\<open>undefined\<close>,
  which \<^verbatim>\<open>getNamesFromGit\<close> hands to \<^verbatim>\<open>GitUrlParse\<close>. When \<^verbatim>\<open>GitUrlParse\<close> throws on
  \<^verbatim>\<open>undefined\<close>, the exception leaves the callback of \<^verbatim>\<open>getRemotes\<close>: the run fails at
  once, after the git call and before the credential fetch and the request.
\<close>

theorem missing_remote_stops_the_run:
  "getRemotes e = Inr remotes \<Longrightarrow>
   filter (\<lambda>remote. remote_name remote = nm) remotes = [] \<Longrightarrow>
   nm = ''origin'' \<or> nm = ''heroku'' \<Longrightarrow>
   GitUrlParse e None = Inl ex \<Longrightarrow>
     getRemoteURL nm remotes w0 = (None, console_log (missing_remote_message nm) w0)
   \<and> (\<exists>f w1. main e w = (Inl f, w1) \<and> calls w1 = calls w @ [GitGetRemotes])"
proof -
  assume r: "getRemotes e = Inr remotes"
    and m: "filter (\<lambda>remote. remote_name remote = nm) remotes = []"
    and n: "nm = ''origin'' \<or> nm = ''heroku''"
    and g: "GitUrlParse e None = Inl ex"
  have 1: "\<And>w0. getRemoteURL nm remotes w0 = (None, console_log (missing_remote_message nm) w0)"
    using m by (simp add: getRemoteURL_def)
  obtain res w1 where gn: "getNamesFromGit e w = (res, w1)"
    by (cases "getNamesFromGit e w")
  have c: "calls w1 = calls w @ [GitGetRemotes]"
    using gn by (rule calls_getNamesFromGit)
  have "\<exists>f. res = Inl (UncaughtException f)"
  proof (cases "nm = ''origin''")
    case True
    with gn r g 1 show ?thesis
      by (auto simp: getNamesFromGit_def Let_def)
  next
    case False
    with n have h: "nm = ''heroku''" by simp
    obtain u w2 where o: "getRemoteURL ''origin'' remotes (logged GitGetRemotes w) = (u, w2)"
      by (cases "getRemoteURL ''origin'' remotes (logged GitGetRemotes w)")
    show ?thesis
      using gn r g 1 [of w2] h o
      by (auto simp: getNamesFromGit_def Let_def split: sum.splits)
  qed
  then obtain f where f: "res = Inl (UncaughtException f)" ..
  have 2: "main e w = (Inl (UncaughtException f), w1)"
    using gn f by (simp add: main_def andThen_def)
  from 1 2 c show ?thesis by blast
qed

theorem missing_remote_stops_the_run_witness:
  "getRemotes (demo_env\<lparr>getRemotes := Inr [hd (tl demo_remotes)]\<rparr>) = Inr [hd (tl demo_remotes)]
   \<and> filter (\<lambda>remote. remote_name remote = ''origin'') [hd (tl demo_remotes)] = []
   \<and> GitUrlParse (demo_env\<lparr>getRemotes := Inr [hd (tl demo_remotes)]\<rparr>) None
       = Inl (Error ''The url must be a string.'')
   \<and> getRemoteURL ''origin'' [hd (tl demo_remotes)] demo_world
       = (None, console_log (missing_remote_message ''origin'') demo_world)
   \<and> (\<exists>f w1. main (demo_env\<lparr>getRemotes := Inr [hd (tl demo_remotes)]\<rparr>) demo_world = (Inl f, w1)
          \<and> calls w1 = calls demo_world @ [GitGetRemotes])"
proof -
  let ?e = "demo_env\<lparr>getRemotes := Inr [hd (tl demo_remotes)]\<rparr>"
  have h1: "getRemotes ?e = Inr [hd (tl demo_remotes)]" by simp
  have h2: "filter (\<lambda>remote. remote_name remote = ''origin'') [hd (tl demo_remotes)] = []"
    by (simp add: demo_remotes_def)
  have h3: "''origin'' = ''origin'' \<or> ''origin'' = ''heroku''" by simp
  have h4: "GitUrlParse ?e None = Inl (Error ''The url must be a string.'')"
    by (simp add: demo_env_def demo_GitUrlParse_def)
  show ?thesis
    using h1 h2 h4 missing_remote_stops_the_run [OF h1 h2 h3 h4, of demo_world demo_world]
    by simp
qed

text \<open>
  The claim as stated has the run go on with an undefined name up to the request. In the
  example run without remotes, with a \<^verbatim>\<open>GitUrlParse\<close> that throws when its argument is no
  string, the diagnostic is logged and the run ends there: the git call is its only call.
\<close>

theorem missing_origin_counterexample:
  "fst (main (demo_env\<lparr>getRemotes := Inr []\<rparr>) demo_world)
     = Inl (UncaughtException (Error ''The url must be a string.''))
   \<and> console (snd (main (demo_env\<lparr>getRemotes := Inr []\<rparr>) demo_world))
       = [missing_remote_message ''origin'']
   \<and> calls (snd (main (demo_env\<lparr>getRemotes := Inr []\<rparr>) demo_world)) = [GitGetRemotes]"
  by (simp add: run_defs demo_defs Let_def)

subsection \<open>C9: the verbose flag\<close>

text \<open>
  Claim C9. Two runs from the same state that differ in the arguments of the process only,
  and so at most in the verbose flag, end with the same exit code and with the same contents
  of every file.
\<close>

theorem verbose_flag_changes_no_file:
  "fst (run (e\<lparr>argv := a\<rparr>) w) = fst (run (e\<lparr>argv := b\<rparr>) w)
   \<and> files (snd (run (e\<lparr>argv := a\<rparr>) w)) = files (snd (run (e\<lparr>argv := b\<rparr>) w))"
  using agree_run [where e = e and a = a and b = b and w = w] by (simp add: agree_def sim_def)

subsection \<open>C10: \<^verbatim>\<open>clean\<close> touches nothing else\<close>

text \<open>
  Claim C10. \<^verbatim>\<open>clean\<close> touches no path other than the three temporary files: after any
  number of calls every other path, \<^verbatim>\<open>.travis.yml\<close> among them, holds what it held before.
\<close>

theorem clean_frame:
  "p \<notin> set externalFiles \<Longrightarrow>
     fst (clean_times n w) = Inr () \<and> files (snd (clean_times n w)) p = files w p"
  by (simp add: clean_times_returns clean_times_files_other)

theorem clean_frame_witness:
  "''.travis.yml'' \<notin> set externalFiles
   \<and> fst (clean_times 2 \<lparr>files = [''.travis.yml'' \<mapsto> ''language: node_js'',
                                     ''.tmp.key.pem'' \<mapsto> ''k''],
                           console = [], calls = [], handlers = False\<rparr>) = Inr ()
   \<and> files (snd (clean_times 2 \<lparr>files = [''.travis.yml'' \<mapsto> ''language: node_js'',
                                              ''.tmp.key.pem'' \<mapsto> ''k''],
                                    console = [], calls = [], handlers = False\<rparr>))
        ''.travis.yml'' = Some ''language: node_js''"
proof -
  have h: "''.travis.yml'' \<notin> set externalFiles" by (simp add: externalFiles_def)
  show ?thesis
    using h clean_frame [OF h, of 2 "\<lparr>files = [''.travis.yml'' \<mapsto> ''language: node_js'',
                                              ''.tmp.key.pem'' \<mapsto> ''k''],
                                    console = [], calls = [], handlers = False\<rparr>"]
    by simp
qed

end
